theory Spec2Isabelle
  imports Complex_Main
begin

unbundle bit_operations_syntax

section \<open>The data of World.js\<close>

text \<open>
  The model follows \<^verbatim>\<open>src/world/World.js\<close>. JavaScript objects that are shared and
  mutated (bodies, materials, contact materials) live in stores indexed by references;
  the arrays of the world hold references. JavaScript numbers are modelled as reals
  (no rounding, no NaN), counters and ids as integers.
\<close>

type_synonym wref = nat
type_synonym bref = nat
type_synonym mref = nat
type_synonym cmref = nat

record vec3 =
  vx :: real
  vy :: real
  vz :: real

record quat =
  qx :: real
  qy :: real
  qz :: real
  qw :: real

text \<open>
  A body, with the fields World.js reads or writes. \<open>rigid\<close> says that the body is a
  RigidBody: it is the test \<^verbatim>\<open>body instanceof RigidBody\<close> of add and the test
  \<^verbatim>\<open>if(b.angularVelocity)\<close> of step (RigidBody is the class that carries
  angularVelocity and quaternion). \<open>body_id\<close> and \<open>index\<close> are undefined (None)
  until the body is added.
\<close>

datatype sleep_state = AWAKE | SLEEPY | SLEEPING

record body =
  body_id :: "int option"
  index :: "nat option"
  world :: "wref option"
  position :: vec3
  velocity :: vec3
  initPosition :: vec3
  initVelocity :: vec3
  rigid :: bool
  angularVelocity :: vec3
  initAngularVelocity :: vec3
  quaternion :: quat
  initQuaternion :: quat
  timeLastSleepy :: real
  sleepState :: sleep_state
  motionstate :: nat
  mass :: real
  invMass :: real
  invInertia :: vec3
  force :: vec3
  tau :: vec3
  linearDamping :: real
  angularDamping :: real
  collisionResponse :: bool
  material :: "mref option"

record material_obj =
  mat_id :: int

record contactmaterial =
  cmat_id :: int
  cm_materials :: "mref \<times> mref"
  friction :: real
  cm_restitution :: real
  contactEquationStiffness :: real
  contactEquationRegularizationTime :: real

text \<open>Equations. Contact and friction equations share the two bodies and the
  contact-point offsets; they are handled by value.\<close>

record equation =
  bi :: bref
  bj :: bref
  ri :: vec3
  rj :: vec3

record contact_eq = equation +
  ni :: vec3
  restitution :: real
  penetration :: real
  stiffness :: real
  regularizationTime :: real

record friction_eq = equation +
  tangent :: vec3
  minForce :: real
  maxForce :: real

datatype solver_eq = ContactEq contact_eq | FrictionEq friction_eq | ConstraintEq nat nat

text \<open>Events, and the object an event is dispatched on.\<close>

datatype event =
  AddBodyEvent bref
  | RemoveBodyEvent bref
  | CollideEvent bref contact_eq
  | PreStepEvent
  | PostStepEvent

datatype target = WorldTarget | BodyTarget bref

text \<open>
  A JavaScript array of numbers that is written by index: its length and its elements.
  Reading an index that was never written gives undefined (None); writing at or beyond
  the length extends the array.
\<close>

record jsarray =
  alen :: nat
  aget :: "int \<Rightarrow> int option"

definition js_empty :: jsarray where
  "js_empty = \<lparr>alen = 0, aget = (\<lambda>_. None)\<rparr>"

definition js_push :: "jsarray \<Rightarrow> int \<Rightarrow> jsarray" where
  "js_push a v = \<lparr>alen = alen a + 1, aget = (aget a)(int (alen a) := Some v)\<rparr>"


text \<open>\<^verbatim>\<open>xs[k]\<close> on an array that is only pushed to, at an index that may be undefined
  or out of range.\<close>

definition js_index :: "'a list \<Rightarrow> int option \<Rightarrow> 'a option" where
  "js_index xs k =
     (case k of None \<Rightarrow> None
      | Some i \<Rightarrow> if 0 \<le> i \<and> i < int (length xs) then Some (xs ! nat i) else None)"

text \<open>
  Modelled from the spec: ArrayCollisionMatrix (collision/ArrayCollisionMatrix) is not
  part of World.js. The spec describes it as a symmetric boolean relation over pairs of
  bodies with canonical unordered-pair addressing, resized whenever the body count
  changes, with set, get and reset. The pair is addressed here by the two body
  references, the larger first.
\<close>

record collision_matrix =
  cm_size :: int
  cm_touching :: "(bref \<times> bref) set"

definition cm_key :: "bref \<Rightarrow> bref \<Rightarrow> bref \<times> bref" where
  "cm_key a b = (if a < b then (b, a) else (a, b))"

definition cm_get :: "collision_matrix \<Rightarrow> bref \<Rightarrow> bref \<Rightarrow> bool" where
  "cm_get m a b = (cm_key a b \<in> cm_touching m)"

definition cm_set :: "collision_matrix \<Rightarrow> bref \<Rightarrow> bref \<Rightarrow> bool \<Rightarrow> collision_matrix" where
  "cm_set m a b v =
     m\<lparr>cm_touching := (if v then insert (cm_key a b) (cm_touching m)
                         else cm_touching m - {cm_key a b})\<rparr>"

definition cm_reset :: "collision_matrix \<Rightarrow> collision_matrix" where
  "cm_reset m = m\<lparr>cm_touching := {}\<rparr>"

definition cm_setNumObjects :: "collision_matrix \<Rightarrow> int \<Rightarrow> collision_matrix" where
  "cm_setNumObjects m n = m\<lparr>cm_size := n\<rparr>"

definition ArrayCollisionMatrix_new :: collision_matrix where
  "ArrayCollisionMatrix_new = \<lparr>cm_size = 0, cm_touching = {}\<rparr>"

text \<open>
  The world: the fields of the World object, the stores of the objects it refers to,
  the equations held by its solver, and the events dispatched so far.
  \<open>frictionEquationPool\<close> and \<open>oldContacts\<close> are the module-level pools
  \<^verbatim>\<open>World_step_frictionEquationPool\<close> and \<^verbatim>\<open>World_step_oldContacts\<close>.
\<close>

record world =
  allowSleep :: bool
  contacts :: "contact_eq list"
  frictionEquations :: "friction_eq list"
  quatNormalizeSkip :: int
  quatNormalizeFast :: bool
  time :: real
  stepnumber :: int
  default_dt :: real
  last_dt :: real
  nextId :: int
  gravity :: vec3
  bodies :: "bref list"
  solver_equations :: "solver_eq list"
  constraints :: "nat list"
  collisionMatrix :: collision_matrix
  collisionMatrixPrevious :: collision_matrix
  materials :: "mref list"
  contactmaterials :: "cmref list"
  mats2cmat :: jsarray
  defaultMaterial :: mref
  defaultContactMaterial :: cmref
  frictionEquationPool :: "friction_eq list"
  oldContacts :: "contact_eq list"
  dispatched :: "(target \<times> event) list"
  body_of :: "bref \<Rightarrow> body"
  material_of :: "mref \<Rightarrow> material_obj"
  cmat_of :: "cmref \<Rightarrow> contactmaterial"

text \<open>
  Modelled from the spec: the constructors of Vec3, Material and ContactMaterial are
  not part of World.js. A fresh vector is zero; a fresh material and a fresh contact
  material are unregistered (id -1, the sentinel of the spec's data model). The
  stiffness and regularization time of a fresh contact material are ContactMaterial's
  defaults; nothing below depends on their values.
\<close>

definition Vec3_new :: vec3 where
  "Vec3_new = \<lparr>vx = 0, vy = 0, vz = 0\<rparr>"

definition Material_new :: material_obj where
  "Material_new = \<lparr>mat_id = - 1\<rparr>"

definition ContactMaterial_new :: "mref \<Rightarrow> mref \<Rightarrow> real \<Rightarrow> real \<Rightarrow> contactmaterial" where
  "ContactMaterial_new m1 m2 f r =
     \<lparr>cmat_id = - 1, cm_materials = (m1, m2), friction = f, cm_restitution = r,
      contactEquationStiffness = 10000000, contactEquationRegularizationTime = 3\<rparr>"

text \<open>
  \<^verbatim>\<open>function World()\<close>. The stores of bodies, materials and contact materials that exist
  when the world is built are arguments, with the references \<open>dm\<close> and \<open>dcm\<close> at which
  the default material and the default contact material are allocated.
\<close>

definition World_new ::
  "(bref \<Rightarrow> body) \<Rightarrow> (mref \<Rightarrow> material_obj) \<Rightarrow> (cmref \<Rightarrow> contactmaterial) \<Rightarrow> mref \<Rightarrow> cmref \<Rightarrow> world"
where
  "World_new bs ms cs dm dcm =
     \<lparr>allowSleep = False,
      contacts = [],
      frictionEquations = [],
      quatNormalizeSkip = 0,
      quatNormalizeFast = False,
      time = 0,
      stepnumber = 0,
      default_dt = 1 / 60,
      last_dt = 1 / 60,
      nextId = 0,
      gravity = Vec3_new,
      bodies = [],
      solver_equations = [],
      constraints = [],
      collisionMatrix = ArrayCollisionMatrix_new,
      collisionMatrixPrevious = ArrayCollisionMatrix_new,
      materials = [],
      contactmaterials = [],
      mats2cmat = js_empty,
      defaultMaterial = dm,
      defaultContactMaterial = dcm,
      frictionEquationPool = [],
      oldContacts = [],
      dispatched = [],
      body_of = bs,
      material_of = ms(dm := Material_new),
      cmat_of = cs(dcm := ContactMaterial_new dm dm (3 / 10) 0)\<rparr>"

section \<open>The registries\<close>

text \<open>
  Modelled from the spec: EventTarget.dispatchEvent (utils/EventTarget) is not part of
  World.js. The spec describes a synchronous dispatch to listeners. The dispatch is
  recorded, with the object it is made on and the payload at that moment; listeners are
  code outside World.js and none is registered in this model.
\<close>

definition dispatchEvent :: "target \<Rightarrow> event \<Rightarrow> world \<Rightarrow> world" where
  "dispatchEvent tg e w = w\<lparr>dispatched := dispatched w @ [(tg, e)]\<rparr>"

text \<open>\<^verbatim>\<open>World.prototype.getContactMaterial\<close>. A body's material may be missing (None):
  then the \<^verbatim>\<open>instanceof\<close> test fails and the result is undefined (None).\<close>

definition getContactMaterial :: "world \<Rightarrow> mref option \<Rightarrow> mref option \<Rightarrow> cmref option" where
  "getContactMaterial w m1 m2 =
     (case (m1, m2) of
        (Some a, Some b) \<Rightarrow>
          (let i = mat_id (material_of w a);
               j = mat_id (material_of w b);
               i' = (if i < j then j else i);
               j' = (if i < j then i else j)
           in js_index (contactmaterials w)
                (aget (mats2cmat w) (i' + j' * int (length (materials w)))))
      | _ \<Rightarrow> None)"

definition numObjects :: "world \<Rightarrow> nat" where
  "numObjects w = length (bodies w)"

text \<open>\<^verbatim>\<open>World.prototype.collisionMatrixTick\<close>\<close>

definition collisionMatrixTick :: "world \<Rightarrow> world" where
  "collisionMatrixTick w =
     (let temp = collisionMatrixPrevious w;
          w1 = w\<lparr>collisionMatrixPrevious := collisionMatrix w\<rparr>;
          w2 = w1\<lparr>collisionMatrix := temp\<rparr>
      in w2\<lparr>collisionMatrix := cm_reset (collisionMatrix w2)\<rparr>)"

text \<open>
  Vec3.copy and Quaternion.copy are defined in math/Vec3 and math/Quaternion, outside
  World.js. The direction of the copy is fixed by its use in step, lines 522 to 526:
  under the comment \<^verbatim>\<open>Copy over the relative vectors\<close>, \<^verbatim>\<open>c.ri.copy(c1.ri)\<close> fills the
  offsets of the friction equation \<open>c1\<close>, which may be freshly constructed, from those
  of the contact \<open>c\<close>. So \<^verbatim>\<open>a.copy(b)\<close> writes the components of \<open>a\<close> into \<open>b\<close> and
  leaves \<open>a\<close> as it is. \<open>copy_into a b\<close> is the value of \<open>b\<close> after the call.
\<close>

definition copy_into :: "'a \<Rightarrow> 'a \<Rightarrow> 'a" where
  "copy_into a b = a"

text \<open>\<^verbatim>\<open>World.prototype.id\<close>: the id returned, and the world with the counter advanced.\<close>

definition fresh_id :: "world \<Rightarrow> int \<times> world" where
  "fresh_id w = (nextId w, w\<lparr>nextId := nextId w + 1\<rparr>)"

definition update_body :: "bref \<Rightarrow> (body \<Rightarrow> body) \<Rightarrow> world \<Rightarrow> world" where
  "update_body b f w = w\<lparr>body_of := (body_of w)(b := f (body_of w b))\<rparr>"

text \<open>\<^verbatim>\<open>World.prototype.add\<close>, called on the world at address \<open>this\<close>.\<close>

definition add :: "wref \<Rightarrow> bref \<Rightarrow> world \<Rightarrow> world" where
  "add this b w =
     (let (i, w1) = fresh_id w;
          w2 = update_body b (\<lambda>bd. bd\<lparr>body_id := Some i\<rparr>) w1;
          w3 = update_body b (\<lambda>bd. bd\<lparr>index := Some (length (bodies w2))\<rparr>) w2;
          w4 = w3\<lparr>bodies := bodies w3 @ [b]\<rparr>;
          w5 = update_body b (\<lambda>bd. bd\<lparr>world := Some this\<rparr>) w4;
          w6 = update_body b (\<lambda>bd. bd\<lparr>initPosition := copy_into (position bd) (initPosition bd)\<rparr>) w5;
          w7 = update_body b (\<lambda>bd. bd\<lparr>initVelocity := copy_into (velocity bd) (initVelocity bd)\<rparr>) w6;
          w8 = update_body b (\<lambda>bd. bd\<lparr>timeLastSleepy := time w7\<rparr>) w7;
          w9 = (if rigid (body_of w8 b)
                then update_body b (\<lambda>bd. bd\<lparr>initQuaternion := copy_into (quaternion bd) (initQuaternion bd)\<rparr>)
                       (update_body b (\<lambda>bd. bd\<lparr>initAngularVelocity :=
                            copy_into (angularVelocity bd) (initAngularVelocity bd)\<rparr>) w8)
                else w8);
          w10 = w9\<lparr>collisionMatrix := cm_setNumObjects (collisionMatrix w9) (int (length (bodies w9)))\<rparr>
      in dispatchEvent WorldTarget (AddBodyEvent b) w10)"

text \<open>
  \<^verbatim>\<open>World.prototype.remove\<close>. \<^verbatim>\<open>bodies.splice(body.index, 1)\<close> with an undefined index
  removes the first element; the loop that follows does not run then, since
  \<^verbatim>\<open>undefined < n\<close> is false.
\<close>

definition splice1 :: "nat \<Rightarrow> 'a list \<Rightarrow> 'a list" where
  "splice1 k xs = take k xs @ drop (Suc k) xs"

function reindex :: "nat \<Rightarrow> int \<Rightarrow> world \<Rightarrow> world" where
  "reindex i n w =
     (if int i < n
      then reindex (Suc i) n (update_body (bodies w ! i) (\<lambda>bd. bd\<lparr>index := Some i\<rparr>) w)
      else w)"
  by pat_completeness auto
termination
  by (relation "measure (\<lambda>(i, n, w). nat (n - int i))") auto

declare reindex.simps [simp del]

definition remove :: "bref \<Rightarrow> world \<Rightarrow> world" where
  "remove b w =
     (let w1 = update_body b (\<lambda>bd. bd\<lparr>world := None\<rparr>) w;
          n = int (numObjects w1) - 1;
          w2 = w1\<lparr>bodies := splice1 (case index (body_of w1 b) of None \<Rightarrow> 0 | Some k \<Rightarrow> k) (bodies w1)\<rparr>;
          w3 = (case index (body_of w2 b) of None \<Rightarrow> w2 | Some k \<Rightarrow> reindex k n w2);
          w4 = w3\<lparr>collisionMatrix := cm_setNumObjects (collisionMatrix w3) n\<rparr>
      in dispatchEvent WorldTarget (RemoveBodyEvent b) w4)"

text \<open>\<^verbatim>\<open>World.prototype.addMaterial\<close>. The loop pushes the sentinel while
  \<^verbatim>\<open>i !== 2*n+1\<close>, that is \<open>2 * n + 1\<close> times.\<close>

primrec push_times :: "nat \<Rightarrow> int \<Rightarrow> jsarray \<Rightarrow> jsarray" where
  "push_times 0 v a = a"
| "push_times (Suc k) v a = push_times k v (js_push a v)"

definition addMaterial :: "mref \<Rightarrow> world \<Rightarrow> world" where
  "addMaterial m w =
     (if mat_id (material_of w m) = - 1
      then (let n = length (materials w);
                w1 = w\<lparr>materials := materials w @ [m]\<rparr>;
                w2 = w1\<lparr>material_of := (material_of w1)(m := (material_of w1 m)
                          \<lparr>mat_id := int (length (materials w1)) - 1\<rparr>)\<rparr>
            in w2\<lparr>mats2cmat := push_times (2 * n + 1) (- 1) (mats2cmat w2)\<rparr>)
      else w)"


section \<open>step\<close>

text \<open>
  step calls code that lives outside World.js: the broadphase and the contact generator,
  the solver, the subsystems, the user constraints, the pre- and post-step callables and
  the sleepTick of the bodies, Math.pow, the two quaternion normalisations, the tangent
  construction of Vec3, and the bit values of Body.DYNAMIC and Body.KINEMATIC. They are
  the parameters of the model, collected in one record; every theorem below holds for
  each choice of them. The collaborators that receive the world act on the store of
  bodies. The profiling timers, the geometry-cache flags (aabbNeedsUpdate and the
  shape flags) and the world-frame inertia are not part of the model: no property below
  reads them.
\<close>

record ext =
  Body_DYNAMIC :: nat
  Body_KINEMATIC :: nat
  subsystems_update :: "(bref \<Rightarrow> body) \<Rightarrow> (bref \<Rightarrow> body)"
  contactgen_getContacts ::
    "(bref \<Rightarrow> body) \<Rightarrow> bref list \<Rightarrow> contact_eq list \<Rightarrow> contact_eq list \<times> contact_eq list"
  vec3_tangents :: "vec3 \<Rightarrow> vec3 \<times> vec3"
  constraint_update :: "nat \<Rightarrow> (bref \<Rightarrow> body) \<Rightarrow> nat"
  solver_solve :: "real \<Rightarrow> solver_eq list \<Rightarrow> (bref \<Rightarrow> body) \<Rightarrow> (bref \<Rightarrow> body)"
  math_pow :: "real \<Rightarrow> real \<Rightarrow> real"
  body_preStep :: "bref \<Rightarrow> (bref \<Rightarrow> body) \<Rightarrow> (bref \<Rightarrow> body)"
  body_postStep :: "bref \<Rightarrow> (bref \<Rightarrow> body) \<Rightarrow> (bref \<Rightarrow> body)"
  quat_normalize :: "quat \<Rightarrow> quat"
  quat_normalizeFast :: "quat \<Rightarrow> quat"
  body_sleepTick :: "real \<Rightarrow> body \<Rightarrow> body"

text \<open>
  Modelled from the spec: the vector and quaternion arithmetic of math/Vec3 and
  math/Quaternion is not part of World.js. The norm is the Euclidean one (the spec's
  |gravity|), the product of quaternions is the Hamilton product (the spec's
  \<open>\<omega>_quat \<cdot> q\<close>), and \<^verbatim>\<open>v.mult(s, v)\<close> scales a vector.
\<close>

definition Vec3_norm :: "vec3 \<Rightarrow> real" where
  "Vec3_norm v = sqrt (vx v * vx v + vy v * vy v + vz v * vz v)"

definition Vec3_mult :: "vec3 \<Rightarrow> real \<Rightarrow> vec3" where
  "Vec3_mult v s = \<lparr>vx = s * vx v, vy = s * vy v, vz = s * vz v\<rparr>"

definition Quaternion_mult :: "quat \<Rightarrow> quat \<Rightarrow> quat" where
  "Quaternion_mult p q =
     \<lparr>qx = qw p * qx q + qx p * qw q + qy p * qz q - qz p * qy q,
      qy = qw p * qy q + qy p * qw q + qz p * qx q - qx p * qz q,
      qz = qw p * qz q + qz p * qw q + qx p * qy q - qy p * qx q,
      qw = qw p * qw q - qx p * qx q - qy p * qy q - qz p * qz q\<rparr>"

text \<open>
  Modelled from the spec: Body.wakeUp and Body.isSleeping (objects/Body) are not part of
  World.js. The spec gives a body a sleep state; waking sets it to awake.
\<close>

definition isSleeping :: "body \<Rightarrow> bool" where
  "isSleeping bd = (sleepState bd = SLEEPING)"

definition wakeUp :: "bref \<Rightarrow> world \<Rightarrow> world" where
  "wakeUp b w = update_body b (\<lambda>bd. bd\<lparr>sleepState := AWAKE\<rparr>) w"

text \<open>
  Modelled from the spec: the Solver (solver/GSSolver) is not part of World.js. Its
  interface is addEquation, solve and removeAllEquations; the equations it holds are
  the list \<open>solver_equations\<close>.
\<close>

definition addEquation :: "solver_eq \<Rightarrow> world \<Rightarrow> world" where
  "addEquation e w = w\<lparr>solver_equations := solver_equations w @ [e]\<rparr>"

definition removeAllEquations :: "world \<Rightarrow> world" where
  "removeAllEquations w = w\<lparr>solver_equations := []\<rparr>"

text \<open>The loops \<^verbatim>\<open>for(i=0; i!==N; i++){ var bi = bodies[i]; ... }\<close> over the registry.\<close>

definition for_bodies :: "(bref \<Rightarrow> world \<Rightarrow> world) \<Rightarrow> world \<Rightarrow> world" where
  "for_bodies f w = fold f (bodies w) w"

text \<open>\<^verbatim>\<open>if(dt===undefined){ dt = this.last_dt || this.default_dt; }\<close>: a number is falsy
  when it is zero.\<close>

definition resolve_dt :: "world \<Rightarrow> real option \<Rightarrow> real" where
  "resolve_dt w dt =
     (case dt of
        None \<Rightarrow> (if last_dt w \<noteq> 0 then last_dt w else default_dt w)
      | Some h \<Rightarrow> h)"

text \<open>Add gravity to all objects (lines 413 to 422).\<close>

definition gravity_body :: "ext \<Rightarrow> vec3 \<Rightarrow> body \<Rightarrow> body" where
  "gravity_body ext g bd =
     (if motionstate bd AND Body_DYNAMIC ext \<noteq> 0
      then bd\<lparr>force := \<lparr>vx = vx (force bd) + mass bd * vx g,
                          vy = vy (force bd) + mass bd * vy g,
                          vz = vz (force bd) + mass bd * vz g\<rparr>\<rparr>
      else bd)"

definition addGravity :: "ext \<Rightarrow> vec3 \<Rightarrow> world \<Rightarrow> world" where
  "addGravity ext g w = for_bodies (\<lambda>b. update_body b (gravity_body ext g)) w"

text \<open>
  Lines 424 to 468: subsystems, broadphase, collisionMatrixTick, contact generation
  (the old contacts go to the pool, the generator fills the contact list and may take
  from the pool), and the transfer of last step's friction equations to their pool.
\<close>

definition generate_contacts :: "ext \<Rightarrow> world \<Rightarrow> world" where
  "generate_contacts ext w =
     (let r = contactgen_getContacts ext (body_of w) (bodies w) (oldContacts w @ contacts w)
      in w\<lparr>contacts := fst r, oldContacts := snd r\<rparr>)"

definition pool_frictionEquations :: "world \<Rightarrow> world" where
  "pool_frictionEquations w =
     w\<lparr>frictionEquationPool := frictionEquationPool w @ frictionEquations w,
       frictionEquations := []\<rparr>"

definition update_subsystems :: "ext \<Rightarrow> world \<Rightarrow> world" where
  "update_subsystems ext w = w\<lparr>body_of := subsystems_update ext (body_of w)\<rparr>"

definition before_contacts :: "ext \<Rightarrow> world \<Rightarrow> world" where
  "before_contacts ext w =
     pool_frictionEquations
       (generate_contacts ext
         (collisionMatrixTick
           (update_subsystems ext (addGravity ext (gravity w) w))))"

text \<open>The gap of a contact (lines 485 to 490), and the contact material that is used for
  it (line 482): an object is truthy, so the default is taken exactly when the lookup
  gives undefined.\<close>

definition gap :: "world \<Rightarrow> contact_eq \<Rightarrow> real" where
  "gap w c =
     (vx (position (body_of w (bj c))) + vx (rj c) - vx (position (body_of w (bi c))) - vx (ri c)) * vx (ni c)
   + (vy (position (body_of w (bj c))) + vy (rj c) - vy (position (body_of w (bi c))) - vy (ri c)) * vy (ni c)
   + (vz (position (body_of w (bj c))) + vz (rj c) - vz (position (body_of w (bi c))) - vz (ri c)) * vz (ni c)"

definition resolve_material :: "world \<Rightarrow> contact_eq \<Rightarrow> contactmaterial" where
  "resolve_material w c =
     cmat_of w
       (case getContactMaterial w (material (body_of w (bi c))) (material (body_of w (bj c))) of
          Some r \<Rightarrow> r
        | None \<Rightarrow> defaultContactMaterial w)"

text \<open>
  Modelled from the spec: the constructor of FrictionEquation (constraints/FrictionEquation)
  is not part of World.js. A fresh friction equation refers to the two bodies and carries
  the bounds \<open>-slipForce\<close> and \<open>slipForce\<close>; its vectors are zero.
\<close>

definition FrictionEquation_new :: "bref \<Rightarrow> bref \<Rightarrow> real \<Rightarrow> friction_eq" where
  "FrictionEquation_new a b slipForce =
     \<lparr>bi = a, bj = b, ri = Vec3_new, rj = Vec3_new, tangent = Vec3_new,
      minForce = - slipForce, maxForce = slipForce\<rparr>"

text \<open>
  Lines 503 to 534, the two friction equations of a contact. Each is popped from the
  pool if the pool is not empty and constructed otherwise; then its bodies and bounds
  are assigned, the offsets of the contact are copied into it, and the tangents are
  written into the two equations.
\<close>

definition reducedMass_of :: "world \<Rightarrow> contact_eq \<Rightarrow> real" where
  "reducedMass_of w c =
     (let reducedMass = invMass (body_of w (bi c)) + invMass (body_of w (bj c))
      in if reducedMass > 0 then 1 / reducedMass else reducedMass)"

definition add_friction :: "ext \<Rightarrow> real \<Rightarrow> real \<Rightarrow> contact_eq \<Rightarrow> world \<Rightarrow> world" where
  "add_friction ext gnorm mu c w =
     (let mug = mu * gnorm;
          reducedMass = reducedMass_of w c;
          pool = frictionEquationPool w;
          c1 = (if pool \<noteq> [] then last pool
                else FrictionEquation_new (bi c) (bj c) (mug * reducedMass));
          pool1 = (if pool \<noteq> [] then butlast pool else pool);
          c2 = (if pool1 \<noteq> [] then last pool1
                else FrictionEquation_new (bi c) (bj c) (mug * reducedMass));
          pool2 = (if pool1 \<noteq> [] then butlast pool1 else pool1);
          c1' = c1\<lparr>bi := bi c, bj := bj c,
                   minForce := (- mug) * reducedMass, maxForce := mug * reducedMass,
                   ri := copy_into (ri c) (ri c1), rj := copy_into (rj c) (rj c1),
                   tangent := fst (vec3_tangents ext (ni c))\<rparr>;
          c2' = c2\<lparr>bi := bi c, bj := bj c,
                   minForce := (- mug) * reducedMass, maxForce := mug * reducedMass,
                   ri := copy_into (ri c) (ri c2), rj := copy_into (rj c) (rj c2),
                   tangent := snd (vec3_tangents ext (ni c))\<rparr>
      in addEquation (FrictionEq c2')
           (addEquation (FrictionEq c1')
             (w\<lparr>frictionEquationPool := pool2,
                frictionEquations := frictionEquations w @ [c1', c2']\<rparr>)))"

text \<open>Lines 494 to 535: the contact equation goes to the solver with the properties of
  the contact material, and the friction equations follow if \<open>mu > 0\<close>.\<close>

definition respond :: "ext \<Rightarrow> real \<Rightarrow> nat \<Rightarrow> world \<Rightarrow> world" where
  "respond ext gnorm k w =
     (let cm = resolve_material w (contacts w ! k);
          c = (contacts w ! k)
                \<lparr>restitution := cm_restitution cm,
                 penetration := gap w (contacts w ! k),
                 stiffness := contactEquationStiffness cm,
                 regularizationTime := contactEquationRegularizationTime cm\<rparr>;
          w1 = addEquation (ContactEq c) (w\<lparr>contacts := (contacts w)[k := c]\<rparr>)
      in if friction cm > 0 then add_friction ext gnorm (friction cm) c w1 else w1)"

text \<open>Lines 541 to 551: the collide events and the wake-up of the two bodies.\<close>

definition first_contact :: "nat \<Rightarrow> world \<Rightarrow> world" where
  "first_contact k w =
     (let c = contacts w ! k
      in wakeUp (bj c) (wakeUp (bi c)
           (dispatchEvent (BodyTarget (bj c)) (CollideEvent (bi c) c)
             (dispatchEvent (BodyTarget (bi c)) (CollideEvent (bj c) c) w))))"

definition mark_touching :: "nat \<Rightarrow> world \<Rightarrow> world" where
  "mark_touching k w =
     w\<lparr>collisionMatrix := cm_set (collisionMatrix w) (bi (contacts w ! k)) (bj (contacts w ! k)) True\<rparr>"

definition is_new_contact :: "nat \<Rightarrow> world \<Rightarrow> bool" where
  "is_new_contact k w =
     (cm_get (collisionMatrix w) (bi (contacts w ! k)) (bj (contacts w ! k))
        \<noteq> cm_get (collisionMatrixPrevious w) (bi (contacts w ! k)) (bj (contacts w ! k)))"

text \<open>The body of the loop over the contacts (lines 470 to 554), for the contact at
  position \<open>k\<close>. The indices \<^verbatim>\<open>bodies.indexOf(bi)\<close> and \<^verbatim>\<open>bodies.indexOf(bj)\<close> that
  the loop computes are not used by it.\<close>

definition handle_contact :: "ext \<Rightarrow> real \<Rightarrow> nat \<Rightarrow> world \<Rightarrow> world" where
  "handle_contact ext gnorm k w =
     (if gap w (contacts w ! k) < 0
      then (let w1 = (if collisionResponse (body_of w (bi (contacts w ! k)))
                         \<and> collisionResponse (body_of w (bj (contacts w ! k)))
                      then respond ext gnorm k w else w);
                w2 = mark_touching k w1
            in if is_new_contact k w2 then first_contact k w2 else w2)
      else w)"

definition makeContactConstraints :: "ext \<Rightarrow> real \<Rightarrow> world \<Rightarrow> world" where
  "makeContactConstraints ext gnorm w = fold (handle_contact ext gnorm) [0..<length (contacts w)] w"

text \<open>Lines 563 to 608: the user constraints, the solver, damping, and the pre-step
  event and callables.\<close>

definition add_constraint_equations :: "ext \<Rightarrow> nat \<Rightarrow> world \<Rightarrow> world" where
  "add_constraint_equations ext c w =
     fold (\<lambda>j. addEquation (ConstraintEq c j)) [0..<constraint_update ext c (body_of w)] w"

definition damp_body :: "ext \<Rightarrow> real \<Rightarrow> body \<Rightarrow> body" where
  "damp_body ext dt bd =
     (if motionstate bd AND Body_DYNAMIC ext \<noteq> 0
      then (let bd1 = bd\<lparr>velocity := Vec3_mult (velocity bd) (math_pow ext (1 - linearDamping bd) dt)\<rparr>
            in if rigid bd1
               then bd1\<lparr>angularVelocity :=
                          Vec3_mult (angularVelocity bd1) (math_pow ext (1 - angularDamping bd1) dt)\<rparr>
               else bd1)
      else bd)"

definition gather_constraints :: "ext \<Rightarrow> world \<Rightarrow> world" where
  "gather_constraints ext w = fold (add_constraint_equations ext) (constraints w) w"

definition solve :: "ext \<Rightarrow> real \<Rightarrow> world \<Rightarrow> world" where
  "solve ext dt w = w\<lparr>body_of := solver_solve ext dt (solver_equations w) (body_of w)\<rparr>"

definition solve_phase :: "ext \<Rightarrow> real \<Rightarrow> world \<Rightarrow> world" where
  "solve_phase ext dt w =
     for_bodies (\<lambda>b s. s\<lparr>body_of := body_preStep ext b (body_of s)\<rparr>)
       (dispatchEvent WorldTarget PreStepEvent
         (for_bodies (\<lambda>b. update_body b (damp_body ext dt))
           (removeAllEquations (solve ext dt (gather_constraints ext w)))))"

text \<open>
  Lines 610 to 690, the integration. \<^verbatim>\<open>%\<close> is JavaScript's remainder: NaN for a zero
  divisor (None), and otherwise of the sign of the dividend.
\<close>

definition js_rem :: "int \<Rightarrow> int \<Rightarrow> int option" where
  "js_rem a b = (if b = 0 then None else Some (sgn a * (\<bar>a\<bar> mod \<bar>b\<bar>)))"

definition quatNormalize :: "world \<Rightarrow> bool" where
  "quatNormalize w = (js_rem (stepnumber w) (quatNormalizeSkip w + 1) = Some 0)"

definition integrate_quat :: "real \<Rightarrow> vec3 \<Rightarrow> quat \<Rightarrow> quat" where
  "integrate_quat dt angularVelo q =
     (let half_dt = dt * 0.5;
          wq = Quaternion_mult \<lparr>qx = vx angularVelo, qy = vy angularVelo, qz = vz angularVelo, qw = 0\<rparr> q
      in \<lparr>qx = qx q + half_dt * qx wq, qy = qy q + half_dt * qy wq,
          qz = qz q + half_dt * qz wq, qw = qw q + half_dt * qw wq\<rparr>)"

definition move_body :: "ext \<Rightarrow> real \<Rightarrow> bool \<Rightarrow> bool \<Rightarrow> body \<Rightarrow> body" where
  "move_body ext dt qn qfast bd =
     (let velo = \<lparr>vx = vx (velocity bd) + vx (force bd) * invMass bd * dt,
                  vy = vy (velocity bd) + vy (force bd) * invMass bd * dt,
                  vz = vz (velocity bd) + vz (force bd) * invMass bd * dt\<rparr>;
          angularVelo =
            (if rigid bd
             then \<lparr>vx = vx (angularVelocity bd) + vx (tau bd) * vx (invInertia bd) * dt,
                   vy = vy (angularVelocity bd) + vy (tau bd) * vy (invInertia bd) * dt,
                   vz = vz (angularVelocity bd) + vz (tau bd) * vz (invInertia bd) * dt\<rparr>
             else angularVelocity bd);
          pos = \<lparr>vx = vx (position bd) + vx velo * dt,
                 vy = vy (position bd) + vy velo * dt,
                 vz = vz (position bd) + vz velo * dt\<rparr>;
          quat = (if rigid bd
                  then (if qn
                        then (if qfast
                              then quat_normalizeFast ext (integrate_quat dt angularVelo (quaternion bd))
                              else quat_normalize ext (integrate_quat dt angularVelo (quaternion bd)))
                        else integrate_quat dt angularVelo (quaternion bd))
                  else quaternion bd)
      in bd\<lparr>velocity := velo, angularVelocity := angularVelo, position := pos, quaternion := quat\<rparr>)"

definition integrate_body :: "ext \<Rightarrow> real \<Rightarrow> bool \<Rightarrow> bool \<Rightarrow> body \<Rightarrow> body" where
  "integrate_body ext dt qn qfast bd =
     (let bd1 = (if motionstate bd AND (Body_DYNAMIC ext OR Body_KINEMATIC ext) \<noteq> 0 \<and> \<not> isSleeping bd
                 then move_body ext dt qn qfast bd else bd);
          bd2 = bd1\<lparr>force := \<lparr>vx = 0, vy = 0, vz = 0\<rparr>\<rparr>
      in if rigid bd2 then bd2\<lparr>tau := \<lparr>vx = 0, vy = 0, vz = 0\<rparr>\<rparr> else bd2)"

definition integrate :: "ext \<Rightarrow> real \<Rightarrow> world \<Rightarrow> world" where
  "integrate ext dt w =
     for_bodies (\<lambda>b. update_body b (integrate_body ext dt (quatNormalize w) (quatNormalizeFast w))) w"

text \<open>Lines 696 to 728: the clock, the post-step event and callables, and the sleep
  update.\<close>

definition advance_clock :: "real \<Rightarrow> world \<Rightarrow> world" where
  "advance_clock dt w = w\<lparr>time := time w + dt, stepnumber := stepnumber w + 1\<rparr>"

definition sleep_update :: "ext \<Rightarrow> world \<Rightarrow> world" where
  "sleep_update ext w =
     (if allowSleep w
      then for_bodies (\<lambda>b s. update_body b (body_sleepTick ext (time s)) s) w
      else w)"

definition finish_step :: "ext \<Rightarrow> real \<Rightarrow> world \<Rightarrow> world" where
  "finish_step ext dt w =
     sleep_update ext
       (for_bodies (\<lambda>b s. s\<lparr>body_of := body_postStep ext b (body_of s)\<rparr>)
         (dispatchEvent WorldTarget PostStepEvent (advance_clock dt w)))"

text \<open>\<^verbatim>\<open>World.prototype.step\<close>. \<open>dt\<close> is None when the argument is left out.\<close>

definition step :: "ext \<Rightarrow> real option \<Rightarrow> world \<Rightarrow> world" where
  "step ext dt w =
     finish_step ext (resolve_dt w dt)
       (integrate ext (resolve_dt w dt)
         (solve_phase ext (resolve_dt w dt)
           (makeContactConstraints ext (Vec3_norm (gravity w)) (before_contacts ext w))))"

section \<open>Example objects and derived notions\<close>

text \<open>A body of unit mass as it is before it is added to a world, and an empty world around it.\<close>

definition Body_new :: body where
  "Body_new = \<lparr>body_id = None, index = None, world = None,
     position = Vec3_new, velocity = Vec3_new, initPosition = Vec3_new, initVelocity = Vec3_new,
     rigid = False, angularVelocity = Vec3_new, initAngularVelocity = Vec3_new,
     quaternion = \<lparr>qx = 0, qy = 0, qz = 0, qw = 1\<rparr>, initQuaternion = \<lparr>qx = 0, qy = 0, qz = 0, qw = 1\<rparr>,
     timeLastSleepy = 0, sleepState = AWAKE, motionstate = 1, mass = 1, invMass = 1,
     invInertia = Vec3_new, force = Vec3_new, tau = Vec3_new, linearDamping = 0, angularDamping = 0,
     collisionResponse = True, material = None\<rparr>"

definition World0 :: world where
  "World0 = World_new (\<lambda>_. Body_new) (\<lambda>_. Material_new) (\<lambda>_. ContactMaterial_new 0 0 0 0) 0 0"

text \<open>Sequences of add and remove calls on one world.\<close>

datatype op = Add bref | Remove bref

fun apply_op :: "wref \<Rightarrow> op \<Rightarrow> world \<Rightarrow> world" where
  "apply_op this (Add b) w = add this b w"
| "apply_op this (Remove b) w = remove b w"

fun apply_ops :: "wref \<Rightarrow> op list \<Rightarrow> world \<Rightarrow> world" where
  "apply_ops this [] w = w"
| "apply_ops this (x # xs) w = apply_ops this xs (apply_op this x w)"

fun valid_ops :: "wref \<Rightarrow> op list \<Rightarrow> world \<Rightarrow> bool" where
  "valid_ops this [] w = True"
| "valid_ops this (Add b # xs) w = (b \<notin> set (bodies w) \<and> valid_ops this xs (add this b w))"
| "valid_ops this (Remove b # xs) w = (b \<in> set (bodies w) \<and> valid_ops this xs (remove b w))"

text \<open>Every body of the registry records its own position as its index.\<close>

definition index_ok :: "world \<Rightarrow> bool" where
  "index_ok w = (map (\<lambda>b. index (body_of w b)) (bodies w) = map Some [0..<length (bodies w)])"

definition World_moved :: world where
  "World_moved = World0\<lparr>body_of := (body_of World0)
     (0 := Body_new\<lparr>position := \<lparr>vx = 1, vy = 2, vz = 3\<rparr>\<rparr>)\<rparr>"



text \<open>
  Collaborators that do nothing: no subsystems, no constraints, a solver and callables
  that leave the bodies alone, and a contact generator that finds no contact.
\<close>

definition ext0 :: ext where
  "ext0 =
     \<lparr>Body_DYNAMIC = 1, Body_KINEMATIC = 4,
      subsystems_update = (\<lambda>h. h),
      contactgen_getContacts = (\<lambda>h bs old. ([], old)),
      vec3_tangents = (\<lambda>n. (Vec3_new, Vec3_new)),
      constraint_update = (\<lambda>c h. 0),
      solver_solve = (\<lambda>dt eqs h. h),
      math_pow = (\<lambda>a b. 1),
      body_preStep = (\<lambda>b h. h),
      body_postStep = (\<lambda>b h. h),
      quat_normalize = (\<lambda>q. q),
      quat_normalizeFast = (\<lambda>q. q),
      body_sleepTick = (\<lambda>t bd. bd)\<rparr>"

text \<open>
  Two bodies, 2 above 3 and overlapping it: a contact between them with normal
  (0, 0, 1) and zero offsets has gap -1.
\<close>

definition contact23 :: contact_eq where
  "contact23 =
     \<lparr>bi = 2, bj = 3, ri = Vec3_new, rj = Vec3_new, ni = \<lparr>vx = 0, vy = 0, vz = 1\<rparr>,
      restitution = 0, penetration = 0, stiffness = 0, regularizationTime = 0\<rparr>"

definition World_pair :: world where
  "World_pair = World0
     \<lparr>bodies := [2, 3],
      body_of := (body_of World0)(2 := Body_new\<lparr>position := \<lparr>vx = 0, vy = 0, vz = 1\<rparr>\<rparr>),
      contacts := [contact23],
      gravity := \<lparr>vx = 0, vy = 0, vz = - 2\<rparr>\<rparr>"

text \<open>The same pair, with the collision response of body 3 switched off.\<close>

definition World_ghost :: world where
  "World_ghost = World_pair
     \<lparr>body_of := (body_of World_pair)(3 := Body_new\<lparr>collisionResponse := False\<rparr>)\<rparr>"

text \<open>
  A contact generator that reports two contact points for the pair, the second one
  moved by 1 along the x axis on both bodies.
\<close>

definition ext_two_points :: ext where
  "ext_two_points = ext0\<lparr>contactgen_getContacts := (\<lambda>h bs old.
     ([contact23,
       contact23\<lparr>ri := \<lparr>vx = 1, vy = 0, vz = 0\<rparr>, rj := \<lparr>vx = 1, vy = 0, vz = 0\<rparr>\<rparr>], old))\<rparr>"

text \<open>The fields that step reads and never writes, and the two it writes at the end.\<close>

definition settings :: "world \<Rightarrow> real \<times> real \<times> int \<times> bool \<times> bref list \<times> vec3 \<times> bool" where
  "settings w = (last_dt w, default_dt w, quatNormalizeSkip w, quatNormalizeFast w, bodies w,
                 gravity w, allowSleep w)"

definition clock :: "world \<Rightarrow> real \<times> int" where
  "clock w = (time w, stepnumber w)"

text \<open>A run of steps, one for each (possibly missing) step size of the list.\<close>

definition run :: "ext \<Rightarrow> real option list \<Rightarrow> world \<Rightarrow> world" where
  "run ext dts w = fold (step ext) dts w"

text \<open>The spinning body of the examples: body 2 of an otherwise empty world, rigid, with
  angular velocity about the z axis.\<close>

definition World_spin :: world where
  "World_spin = World0
     \<lparr>bodies := [2],
      body_of := (body_of World0)
        (2 := Body_new\<lparr>rigid := True, angularVelocity := \<lparr>vx = 0, vy = 0, vz = 2\<rparr>\<rparr>)\<rparr>"

text \<open>The angular velocity of a rigid body after the torque of the step is applied
  (lines 643 to 647).\<close>

definition spun :: "real \<Rightarrow> body \<Rightarrow> vec3" where
  "spun dt bd =
     \<lparr>vx = vx (angularVelocity bd) + vx (tau bd) * vx (invInertia bd) * dt,
      vy = vy (angularVelocity bd) + vy (tau bd) * vy (invInertia bd) * dt,
      vz = vz (angularVelocity bd) + vz (tau bd) * vz (invInertia bd) * dt\<rparr>"

definition ext_unit :: ext where
  "ext_unit = ext0\<lparr>quat_normalize := (\<lambda>q. \<lparr>qx = 0, qy = 0, qz = 0, qw = 1\<rparr>)\<rparr>"

definition World_spin2 :: world where
  "World_spin2 = World_spin\<lparr>quatNormalizeSkip := 1\<rparr>"

text \<open>Counting the collide events dispatched on body \<open>a\<close> that carry body \<open>b\<close>, and the
  penetrating contacts that the contact list holds for an ordered pair.\<close>

fun is_collide_with :: "bref \<Rightarrow> event \<Rightarrow> bool" where
  "is_collide_with b (CollideEvent x c) = (x = b)"
| "is_collide_with b _ = False"

definition collide_count :: "bref \<Rightarrow> bref \<Rightarrow> (target \<times> event) list \<Rightarrow> nat" where
  "collide_count a b evs =
     length (filter (\<lambda>te. fst te = BodyTarget a \<and> is_collide_with b (snd te)) evs)"

definition pen_count :: "world \<Rightarrow> bref \<Rightarrow> bref \<Rightarrow> nat" where
  "pen_count s a b = length (filter (\<lambda>c. gap s c < 0 \<and> bi c = a \<and> bj c = b) (contacts s))"

text \<open>The events dispatched between a world and a later one.\<close>

definition new_events :: "world \<Rightarrow> world \<Rightarrow> (target \<times> event) list" where
  "new_events w w' = drop (length (dispatched w)) (dispatched w')"

text \<open>What the loop over the contacts looks at and never changes: the two bodies and the
  gap of each contact, and the collision matrix of the previous step.\<close>

definition scene :: "world \<Rightarrow> (bref \<times> bref \<times> real) list \<times> collision_matrix" where
  "scene w = (map (\<lambda>c. (bi c, bj c, gap w c)) (contacts w), collisionMatrixPrevious w)"

text \<open>The contact at position \<open>k\<close> is a first contact: penetrating, for a pair that the
  previous step did not record. \<open>rising\<close> is the number of collide events it brings to
  body \<open>a\<close> with body \<open>b\<close>.\<close>

definition fires :: "world \<Rightarrow> nat \<Rightarrow> bool" where
  "fires w k =
     (gap w (contacts w ! k) < 0
      \<and> \<not> cm_get (collisionMatrixPrevious w) (bi (contacts w ! k)) (bj (contacts w ! k)))"

definition rising :: "world \<Rightarrow> bref \<Rightarrow> bref \<Rightarrow> nat \<Rightarrow> nat" where
  "rising w a b k =
     (if fires w k
      then (if bi (contacts w ! k) = a \<and> bj (contacts w ! k) = b then 1 else 0)
         + (if bj (contacts w ! k) = a \<and> bi (contacts w ! k) = b then 1 else 0)
      else 0)"

text \<open>The state of the pass over contact \<open>k\<close> after the pair is marked in the collision
  matrix, before the test for a first contact.\<close>

definition after_response :: "ext \<Rightarrow> real \<Rightarrow> nat \<Rightarrow> world \<Rightarrow> world" where
  "after_response ext g k w =
     mark_touching k
       (if collisionResponse (body_of w (bi (contacts w ! k)))
           \<and> collisionResponse (body_of w (bj (contacts w ! k)))
        then respond ext g k w else w)"

text \<open>What step carries from one call to the next about contacts and events.\<close>

definition ledger :: "world \<Rightarrow> (target \<times> event) list \<times> collision_matrix \<times> collision_matrix" where
  "ledger w = (dispatched w, collisionMatrix w, collisionMatrixPrevious w)"

text \<open>The friction equations among the equations that the solver holds.\<close>

fun friction_part :: "solver_eq list \<Rightarrow> friction_eq list" where
  "friction_part [] = []"
| "friction_part (FrictionEq f # es) = f # friction_part es"
| "friction_part (ContactEq c # es) = friction_part es"
| "friction_part (ConstraintEq c j # es) = friction_part es"

text \<open>What the equations of a contact are computed from, and what the loop over the
  contacts never changes: whether both bodies respond to collisions, the friction of the
  contact material, and the reduced mass.\<close>

definition traits :: "world \<Rightarrow> (bool \<times> real \<times> real) list" where
  "traits w = map (\<lambda>c. (collisionResponse (body_of w (bi c)) \<and> collisionResponse (body_of w (bj c)),
                         friction (resolve_material w c), reducedMass_of w c)) (contacts w)"

text \<open>The equations \<open>blk\<close> are what the pass over contact \<open>k\<close> gives to the solver: the
  contact equation and two friction equations with the bounds of lines 519 and 520 if the
  contact is penetrating, both bodies respond and the friction is positive; the contact
  equation alone if the friction is not positive; nothing otherwise.\<close>

definition block_at :: "real \<Rightarrow> world \<Rightarrow> nat \<Rightarrow> solver_eq list \<Rightarrow> bool" where
  "block_at g w k blk =
     (let c = contacts w ! k;
          act = (gap w c < 0 \<and> collisionResponse (body_of w (bi c)) \<and> collisionResponse (body_of w (bj c)));
          mu = friction (resolve_material w c);
          b = mu * g * reducedMass_of w c
      in (act \<and> 0 < mu \<longrightarrow>
            (\<exists>ce f1 f2. blk = [ContactEq ce, FrictionEq f1, FrictionEq f2]
               \<and> bi ce = bi c \<and> bj ce = bj c
               \<and> minForce f1 = - b \<and> maxForce f1 = b \<and> minForce f2 = - b \<and> maxForce f2 = b))
       \<and> (act \<and> mu \<le> 0 \<longrightarrow> (\<exists>ce. blk = [ContactEq ce] \<and> bi ce = bi c \<and> bj ce = bj c))
       \<and> (\<not> act \<longrightarrow> blk = []))"

text \<open>A contact generator that reports the one contact of the overlapping pair.\<close>

definition ext_one_point :: ext where
  "ext_one_point = ext0\<lparr>contactgen_getContacts := (\<lambda>h bs old. ([contact23], old))\<rparr>"

text \<open>The overlapping pair with the inverse masses -1 and 1/2 written into the two bodies.\<close>

definition World_odd :: world where
  "World_odd = World_pair
     \<lparr>body_of := (body_of World_pair)
        (2 := (body_of World_pair 2)\<lparr>invMass := - 1\<rparr>,
         3 := (body_of World_pair 3)\<lparr>invMass := 1 / 2\<rparr>)\<rparr>"

section \<open>add\<close>

lemma add_bodies: "bodies (add this b w) = bodies w @ [b]"
  unfolding add_def fresh_id_def Let_def split_def
  by (simp add: update_body_def dispatchEvent_def)

lemma add_body_other: "x \<noteq> b \<Longrightarrow> body_of (add this b w) x = body_of w x"
  unfolding add_def fresh_id_def Let_def split_def
  by (simp add: update_body_def dispatchEvent_def)

lemma add_index: "index (body_of (add this b w) b) = Some (length (bodies w))"
  unfolding add_def fresh_id_def Let_def split_def
  by (simp add: update_body_def dispatchEvent_def)

lemma add_body_id: "body_id (body_of (add this b w) b) = Some (nextId w)"
  unfolding add_def fresh_id_def Let_def split_def
  by (simp add: update_body_def dispatchEvent_def)

lemma add_dispatched: "dispatched (add this b w) = dispatched w @ [(WorldTarget, AddBodyEvent b)]"
  unfolding add_def fresh_id_def Let_def split_def
  by (simp add: update_body_def dispatchEvent_def)

lemma add_world: "world (body_of (add this b w) b) = Some this"
  unfolding add_def fresh_id_def Let_def split_def
  by (simp add: update_body_def dispatchEvent_def)

lemma add_live:
  "position (body_of (add this b w) b) = position (body_of w b)"
  "velocity (body_of (add this b w) b) = velocity (body_of w b)"
  "quaternion (body_of (add this b w) b) = quaternion (body_of w b)"
  "angularVelocity (body_of (add this b w) b) = angularVelocity (body_of w b)"
  unfolding add_def fresh_id_def Let_def split_def
  by (simp_all add: update_body_def dispatchEvent_def)

lemma add_init:
  "initPosition (body_of (add this b w) b) = position (body_of w b)"
  "initVelocity (body_of (add this b w) b) = velocity (body_of w b)"
  "initQuaternion (body_of (add this b w) b) =
     (if rigid (body_of w b) then quaternion (body_of w b) else initQuaternion (body_of w b))"
  "initAngularVelocity (body_of (add this b w) b) =
     (if rigid (body_of w b) then angularVelocity (body_of w b) else initAngularVelocity (body_of w b))"
  unfolding add_def fresh_id_def Let_def split_def
  by (simp_all add: update_body_def dispatchEvent_def copy_into_def)

lemma add_sleep_stamp: "timeLastSleepy (body_of (add this b w) b) = time w"
  unfolding add_def fresh_id_def Let_def split_def
  by (simp add: update_body_def dispatchEvent_def)

lemma add_matrix: "collisionMatrix (add this b w) =
    cm_setNumObjects (collisionMatrix w) (int (length (bodies w @ [b])))"
  unfolding add_def fresh_id_def Let_def split_def
  by (simp add: update_body_def dispatchEvent_def)

text \<open>
  Claim C2, as the code has it. The claim says that add fails with an InvalidStateError
  on a body that already belongs to a world and leaves the registry alone. add has no
  such test: whatever \<open>body.world\<close> holds, the body gets a fresh id, its index becomes
  the current count, it is appended to the registry (once more, if it was there) and
  the add-body event is dispatched.
\<close>
theorem add_member_again:
  "world (body_of w b) \<noteq> None \<Longrightarrow>
     bodies (add this b w) = bodies w @ [b] \<and>
     body_id (body_of (add this b w) b) = Some (nextId w) \<and>
     index (body_of (add this b w) b) = Some (length (bodies w)) \<and>
     world (body_of (add this b w) b) = Some this \<and>
     dispatched (add this b w) = dispatched w @ [(WorldTarget, AddBodyEvent b)]"
  by (simp add: add_bodies add_body_id add_index add_world add_dispatched)

text \<open>
  Claim C2 as stated fails: a body that was added, so that its world is set, is added a
  second time and the registry grows.
\<close>
theorem add_member_rejected_counterexample:
  "world (body_of (add 0 0 World0) 0) \<noteq> None \<and>
   bodies (add 0 0 (add 0 0 World0)) \<noteq> bodies (add 0 0 World0)"
  by (simp add: add_bodies add_world)

text \<open>Claim C2, amended form, at a body that is already a member.\<close>
theorem add_member_again_witness:
  "world (body_of (add 0 0 World0) 0) \<noteq> None \<and>
   bodies (add 0 0 (add 0 0 World0)) = [0, 0] \<and>
   index (body_of (add 0 0 (add 0 0 World0)) 0) = Some 1"
  using add_member_again [of "add 0 0 World0" 0 0]
  by (simp add: add_bodies add_world World0_def World_new_def)

text \<open>
  Claim C8, as the code has it. The claim says that add copies the stored initial position,
  velocity, orientation and angular velocity into the live fields. The copies go the
  other way: \<^verbatim>\<open>body.position.copy(body.initPosition)\<close> writes the live position into
  initPosition (and likewise for velocity, and for quaternion and angular velocity of a
  RigidBody), and the live fields keep their values. The rest of the claim holds: the
  sleep timestamp becomes the world time, the collision matrix is resized to the new
  body count, and an add-body event carrying the body is dispatched.
\<close>
theorem add_snapshots_live_state:
  "world (body_of w b) = None \<Longrightarrow>
     initPosition (body_of (add this b w) b) = position (body_of w b) \<and>
     initVelocity (body_of (add this b w) b) = velocity (body_of w b) \<and>
     position (body_of (add this b w) b) = position (body_of w b) \<and>
     velocity (body_of (add this b w) b) = velocity (body_of w b) \<and>
     quaternion (body_of (add this b w) b) = quaternion (body_of w b) \<and>
     angularVelocity (body_of (add this b w) b) = angularVelocity (body_of w b) \<and>
     initQuaternion (body_of (add this b w) b) =
       (if rigid (body_of w b) then quaternion (body_of w b) else initQuaternion (body_of w b)) \<and>
     initAngularVelocity (body_of (add this b w) b) =
       (if rigid (body_of w b) then angularVelocity (body_of w b) else initAngularVelocity (body_of w b)) \<and>
     timeLastSleepy (body_of (add this b w) b) = time w \<and>
     cm_size (collisionMatrix (add this b w)) = int (length (bodies (add this b w))) \<and>
     dispatched (add this b w) = dispatched w @ [(WorldTarget, AddBodyEvent b)]"
  by (simp add: add_live add_init add_sleep_stamp add_matrix add_bodies add_dispatched
      cm_setNumObjects_def)

text \<open>
  Claim C8 as stated fails: a body placed at (1, 2, 3) before it is added, with a zero
  initPosition, is still at (1, 2, 3) after add.
\<close>
theorem add_copies_init_to_live_counterexample:
  "world (body_of World_moved 0) = None \<and>
   initPosition (body_of World_moved 0) = \<lparr>vx = 0, vy = 0, vz = 0\<rparr> \<and>
   position (body_of (add 0 0 World_moved) 0) = \<lparr>vx = 1, vy = 2, vz = 3\<rparr> \<and>
   position (body_of (add 0 0 World_moved) 0) \<noteq> initPosition (body_of World_moved 0)"
  by (simp add: add_live World_moved_def World0_def World_new_def Body_new_def Vec3_new_def)

text \<open>Claim C8, amended form, at that body.\<close>
theorem add_snapshots_live_state_witness:
  "world (body_of World_moved 0) = None \<and>
   initPosition (body_of (add 0 0 World_moved) 0) = \<lparr>vx = 1, vy = 2, vz = 3\<rparr> \<and>
   timeLastSleepy (body_of (add 0 0 World_moved) 0) = 0 \<and>
   cm_size (collisionMatrix (add 0 0 World_moved)) = 1"
  using add_snapshots_live_state [of World_moved 0 0]
  by (simp add: add_bodies World_moved_def World0_def World_new_def Body_new_def Vec3_new_def)

section \<open>The index invariant\<close>

lemma index_ok_nth: "index_ok w \<Longrightarrow> i < length (bodies w) \<Longrightarrow> index (body_of w (bodies w ! i)) = Some i"
proof -
  assume ok: "index_ok w" and i: "i < length (bodies w)"
  have "map (\<lambda>b. index (body_of w b)) (bodies w) ! i = map Some [0..<length (bodies w)] ! i"
    using ok by (simp add: index_ok_def)
  with i show ?thesis by simp
qed

lemma index_okI:
  assumes "\<And>i. i < length (bodies w) \<Longrightarrow> index (body_of w (bodies w ! i)) = Some i"
  shows "index_ok w"
  unfolding index_ok_def by (rule nth_equalityI) (simp_all add: assms)

lemma index_ok_distinct: "index_ok w \<Longrightarrow> distinct (bodies w)"
proof -
  assume "index_ok w"
  then have "distinct (map (\<lambda>b. index (body_of w b)) (bodies w))"
    by (simp add: index_ok_def distinct_map inj_on_def)
  then show ?thesis by (simp add: distinct_map)
qed

lemma add_index_ok:
  assumes ok: "index_ok w" and fresh: "b \<notin> set (bodies w)"
  shows "index_ok (add this b w)"
proof (rule index_okI)
  fix i assume i: "i < length (bodies (add this b w))"
  show "index (body_of (add this b w) (bodies (add this b w) ! i)) = Some i"
  proof (cases "i < length (bodies w)")
    case True
    then have ne: "bodies w ! i \<noteq> b" using fresh by (metis nth_mem)
    from True have "bodies (add this b w) ! i = bodies w ! i"
      by (simp add: add_bodies nth_append)
    with ne True ok show ?thesis by (simp add: add_body_other index_ok_nth)
  next
    case False
    with i have "i = length (bodies w)" by (simp add: add_bodies)
    then show ?thesis by (simp add: add_bodies add_index)
  qed
qed

lemma update_body_bodies: "bodies (update_body b f w) = bodies w"
  by (simp add: update_body_def)

lemma reindex_bodies: "bodies (reindex i n w) = bodies w"
proof (induction i n w rule: reindex.induct)
  case (1 i n w)
  show ?case
  proof (cases "int i < n")
    case True
    with 1 show ?thesis by (subst reindex.simps) (simp add: update_body_bodies)
  next
    case False
    then show ?thesis by (subst reindex.simps) simp
  qed
qed

lemma reindex_index:
  "distinct (bodies w) \<Longrightarrow> n \<le> int (length (bodies w)) \<Longrightarrow> int j < n \<Longrightarrow>
   index (body_of (reindex i n w) (bodies w ! j)) =
     (if i \<le> j then Some j else index (body_of w (bodies w ! j)))"
proof (induction i n w rule: reindex.induct)
  case (1 i n w)
  show ?case
  proof (cases "int i < n")
    case True
    let ?w' = "update_body (bodies w ! i) (\<lambda>bd. bd\<lparr>index := Some i\<rparr>) w"
    have bs: "bodies ?w' = bodies w" by (simp add: update_body_bodies)
    have ih: "index (body_of (reindex (Suc i) n ?w') (bodies w ! j)) =
        (if Suc i \<le> j then Some j else index (body_of ?w' (bodies w ! j)))"
      using "1.IH" [OF True] "1.prems" bs by simp
    have same: "bodies w ! j = bodies w ! i \<longleftrightarrow> j = i"
      using "1.prems" True by (auto simp: nth_eq_iff_index_eq)
    have "index (body_of ?w' (bodies w ! j)) =
        (if j = i then Some i else index (body_of w (bodies w ! j)))"
      using same by (simp add: update_body_def)
    with ih True show ?thesis by (subst reindex.simps) auto
  next
    case False
    with "1.prems" show ?thesis by (subst reindex.simps) auto
  qed
qed

lemma reindex_other: "x \<notin> set (bodies w) \<Longrightarrow> n \<le> int (length (bodies w)) \<Longrightarrow>
   body_of (reindex i n w) x = body_of w x"
proof (induction i n w rule: reindex.induct)
  case (1 i n w)
  show ?case
  proof (cases "int i < n")
    case True
    let ?w' = "update_body (bodies w ! i) (\<lambda>bd. bd\<lparr>index := Some i\<rparr>) w"
    have bs: "bodies ?w' = bodies w" by (simp add: update_body_bodies)
    have "bodies w ! i \<in> set (bodies w)" using True "1.prems" by simp
    then have ne: "bodies w ! i \<noteq> x" using "1.prems" by auto
    have "body_of (reindex (Suc i) n ?w') x = body_of ?w' x"
      using "1.IH" [OF True] "1.prems" bs by simp
    with ne True show ?thesis by (subst reindex.simps) (simp add: update_body_def)
  next
    case False
    then show ?thesis by (subst reindex.simps) simp
  qed
qed

lemma remove_bodies:
  "bodies (remove b w) = splice1 (case index (body_of w b) of None \<Rightarrow> 0 | Some k \<Rightarrow> k) (bodies w)"
  unfolding remove_def Let_def
  by (simp add: update_body_def dispatchEvent_def reindex_bodies numObjects_def split: option.splits)

lemma remove_body_of:
  "index (body_of w b) = Some k \<Longrightarrow>
   body_of (remove b w) = body_of (reindex k (int (length (bodies w)) - 1)
      ((update_body b (\<lambda>bd. bd\<lparr>world := None\<rparr>) w)\<lparr>bodies := splice1 k (bodies w)\<rparr>))"
  unfolding remove_def Let_def
  by (simp add: update_body_def dispatchEvent_def numObjects_def)

lemma remove_index_ok:
  assumes ok: "index_ok w" and mem: "b \<in> set (bodies w)"
  shows "index_ok (remove b w)"
proof -
  from mem obtain k where k: "k < length (bodies w)" "bodies w ! k = b"
    by (auto simp: in_set_conv_nth)
  have idx: "index (body_of w b) = Some k" using index_ok_nth [OF ok k(1)] k(2) by simp
  have dist: "distinct (bodies w)" by (rule index_ok_distinct [OF ok])
  let ?xs = "splice1 k (bodies w)"
  let ?w2 = "(update_body b (\<lambda>bd. bd\<lparr>world := None\<rparr>) w)\<lparr>bodies := ?xs\<rparr>"
  let ?n = "int (length (bodies w)) - 1"
  have len: "length ?xs = length (bodies w) - 1" using k by (simp add: splice1_def)
  have dxs: "distinct ?xs" using dist
    by (simp add: splice1_def set_take_disj_set_drop_if_distinct)
  have bods: "bodies (remove b w) = ?xs" using idx by (simp add: remove_bodies)
  have body: "body_of (remove b w) = body_of (reindex k ?n ?w2)" by (rule remove_body_of [OF idx])
  show ?thesis
  proof (rule index_okI)
    fix j assume "j < length (bodies (remove b w))"
    then have j: "j < length (bodies w) - 1" using bods len by simp
    have "index (body_of (reindex k ?n ?w2) (bodies ?w2 ! j)) =
       (if k \<le> j then Some j else index (body_of ?w2 (bodies ?w2 ! j)))"
      using dxs len j k by (intro reindex_index) auto
    moreover have "j < k \<Longrightarrow> index (body_of ?w2 (?xs ! j)) = Some j"
    proof -
      assume jk: "j < k"
      then have e: "?xs ! j = bodies w ! j" using k by (simp add: splice1_def nth_append)
      have "bodies w ! j \<noteq> b" using dist jk k by (auto simp: nth_eq_iff_index_eq)
      with e index_ok_nth [OF ok, of j] jk k show ?thesis by (simp add: update_body_def)
    qed
    ultimately show "index (body_of (remove b w) (bodies (remove b w) ! j)) = Some j"
      using body bods by (cases "k \<le> j") auto
  qed
qed

lemma remove_shifts:
  assumes ok: "index_ok w" and ki: "k < i" and i: "i < length (bodies w)"
  shows "index (body_of (remove (bodies w ! k) w) (bodies w ! i)) = Some (i - 1)"
proof -
  let ?b = "bodies w ! k"
  from ki i have k: "k < length (bodies w)" by simp
  have idx: "index (body_of w ?b) = Some k" by (rule index_ok_nth [OF ok k])
  have bods: "bodies (remove ?b w) = splice1 k (bodies w)" using idx by (simp add: remove_bodies)
  have at: "splice1 k (bodies w) ! (i - 1) = bodies w ! i"
  proof -
    have len: "length (take k (bodies w)) = k" using k by simp
    have nk: "\<not> i - 1 < k" using ki by arith
    have e: "Suc k + (i - 1 - k) = i" using ki by arith
    have "splice1 k (bodies w) ! (i - 1) = drop (Suc k) (bodies w) ! (i - 1 - k)"
      unfolding splice1_def nth_append len using nk by (simp del: One_nat_def)
    also have "\<dots> = bodies w ! (Suc k + (i - 1 - k))"
      using i ki by (intro nth_drop) simp
    finally show ?thesis unfolding e .
  qed
  have ok': "index_ok (remove ?b w)" using ok k by (intro remove_index_ok) simp_all
  have "i - 1 < length (bodies (remove ?b w))" using ki i by (simp add: bods splice1_def)
  from index_ok_nth [OF ok' this] show ?thesis unfolding bods at .
qed

lemma index_ok_apply_ops:
  "index_ok w \<Longrightarrow> valid_ops this ops w \<Longrightarrow> index_ok (apply_ops this ops w)"
proof (induction ops arbitrary: w)
  case Nil
  then show ?case by simp
next
  case (Cons x xs)
  then show ?case by (cases x) (auto intro: add_index_ok remove_index_ok)
qed

text \<open>
  Claim C4, as the code has it. After a sequence of add and remove calls the index of
  every body in the registry is its position there, provided each remove is applied to
  a current member and each add to a body that is not a current member. (add does not
  reject a member, see C2; adding one twice puts it at two positions with one index.)
  In particular add gives the body the count before the insertion as its index, and
  removing the body at position \<open>k\<close> of a registry that satisfies the invariant takes the
  index of every body behind it from \<open>i\<close> to \<open>i - 1\<close>.
\<close>
theorem index_invariant:
  "(index_ok w \<and> valid_ops this ops w \<longrightarrow> index_ok (apply_ops this ops w))
   \<and> index (body_of (add this b u) b) = Some (length (bodies u))
   \<and> (index_ok v \<and> k < i \<and> i < length (bodies v) \<longrightarrow>
        index (body_of v (bodies v ! i)) = Some i
        \<and> index (body_of (remove (bodies v ! k) v) (bodies v ! i)) = Some (i - 1))"
proof (intro conjI impI)
  assume "index_ok w \<and> valid_ops this ops w"
  then show "index_ok (apply_ops this ops w)" by (simp add: index_ok_apply_ops)
next
  show "index (body_of (add this b u) b) = Some (length (bodies u))" by (rule add_index)
next
  assume h: "index_ok v \<and> k < i \<and> i < length (bodies v)"
  then show "index (body_of v (bodies v ! i)) = Some i" by (simp add: index_ok_nth)
next
  assume h: "index_ok v \<and> k < i \<and> i < length (bodies v)"
  then show "index (body_of (remove (bodies v ! k) v) (bodies v ! i)) = Some (i - 1)"
    by (simp add: remove_shifts)
qed

text \<open>
  Claim C4 as stated fails: it lets add be applied to any body. Adding the same body
  twice leaves it at positions 0 and 1 with index 1.
\<close>

theorem index_invariant_counterexample:
  "index_ok World0 \<and> \<not> index_ok (apply_ops 0 [Add 0, Add 0] World0)"
proof -
  have "index_ok World0"
    by (simp add: index_ok_def World0_def World_new_def)
  moreover have "map (\<lambda>b. index (body_of (add 0 0 (add 0 0 World0)) b)) (bodies (add 0 0 (add 0 0 World0)))
      = [Some (Suc 0), Some (Suc 0)]"
    by (simp add: add_bodies add_index World0_def World_new_def)
  ultimately show ?thesis
    by (simp add: index_ok_def add_bodies upt_rec)
qed

text \<open>
  Claim C4, amended form: three bodies are added and the middle one is removed; the
  third body goes from index 2 to index 1.
\<close>

theorem index_invariant_witness:
  "index_ok World0 \<and> valid_ops 0 [Add 2, Add 3, Add 4, Remove 3] World0
   \<and> index_ok (apply_ops 0 [Add 2, Add 3, Add 4, Remove 3] World0)
   \<and> index (body_of (add 0 2 World0) 2) = Some 0
   \<and> bodies (apply_ops 0 [Add 2, Add 3, Add 4] World0) = [2, 3, 4]
   \<and> index_ok (apply_ops 0 [Add 2, Add 3, Add 4] World0)
   \<and> index (body_of (apply_ops 0 [Add 2, Add 3, Add 4] World0) 4) = Some 2
   \<and> index (body_of (remove 3 (apply_ops 0 [Add 2, Add 3, Add 4] World0)) 4) = Some 1"
proof -
  define W3 where "W3 = apply_ops 0 [Add 2, Add 3, Add 4] World0"
  have a: "index_ok World0"
    by (simp add: index_ok_def World0_def World_new_def)
  have b: "valid_ops 0 [Add 2, Add 3, Add 4, Remove 3] World0"
    by (simp add: add_bodies World0_def World_new_def)
  have b3: "valid_ops 0 [Add 2, Add 3, Add 4] World0"
    by (simp add: add_bodies World0_def World_new_def)
  have bs: "bodies W3 = [2, 3, 4]"
    by (simp add: W3_def add_bodies World0_def World_new_def)
  have ok3: "index_ok W3"
    using index_invariant [of World0 0 "[Add 2, Add 3, Add 4]"] a b3 by (simp add: W3_def)
  have at: "bodies W3 ! 1 = 3" "bodies W3 ! 2 = 4" "(1::nat) < 2" "2 < length (bodies W3)"
    by (simp_all add: bs)
  have r: "index (body_of W3 4) = Some 2 \<and> index (body_of (remove 3 W3) 4) = Some 1"
    using index_invariant [of World0 0 "[]" 0 World0 W3 1 2] ok3 at by simp
  have c: "index_ok (apply_ops 0 [Add 2, Add 3, Add 4, Remove 3] World0)"
    using index_invariant [of World0 0 "[Add 2, Add 3, Add 4, Remove 3]"] a b by simp
  have d: "index (body_of (add 0 2 World0) 2) = Some 0"
    using index_invariant [of World0 0 "[]" 2 World0] by (simp add: World0_def World_new_def)
  from a b c d bs ok3 r show ?thesis unfolding W3_def by simp
qed

section \<open>The material pair table\<close>

lemma push_times_alen: "alen (push_times n v a) = alen a + n"
  by (induction n arbitrary: a) (simp_all add: js_push_def)

lemma push_times_aget:
  "aget (push_times n v a) k =
     (if int (alen a) \<le> k \<and> k < int (alen a) + int n then Some v else aget a k)"
  by (induction n arbitrary: a) (auto simp: js_push_def)



















lemma fold_addMaterial_length: "length (materials w) \<le> length (materials (fold addMaterial ms w))"
proof (induction ms arbitrary: w)
  case Nil
  then show ?case by simp
next
  case (Cons m ms)
  have "length (materials w) \<le> length (materials (addMaterial m w))"
    by (simp add: addMaterial_def Let_def)
  then show ?case using Cons [of "addMaterial m w"] by simp
qed

text \<open>
  Claim C7. addMaterial on a material whose id is not -1 changes nothing. On a material
  with id -1 it appends the material to the list, gives it the previous material count
  \<open>n\<close> as id, and appends \<open>2 * n + 1\<close> slots holding -1 to the pair table: the length
  grows by that much, the new slots hold -1 and the old ones are unchanged. Adding the
  same material again is then a no-op.
\<close>

theorem addMaterial_spec:
  "(mat_id (material_of w m) \<noteq> - 1 \<longrightarrow> addMaterial m w = w) \<and>
   (mat_id (material_of w m) = - 1 \<longrightarrow>
      materials (addMaterial m w) = materials w @ [m] \<and>
      mat_id (material_of (addMaterial m w) m) = int (length (materials w)) \<and>
      alen (mats2cmat (addMaterial m w)) = alen (mats2cmat w) + (2 * length (materials w) + 1) \<and>
      (\<forall>k. aget (mats2cmat (addMaterial m w)) k =
           (if int (alen (mats2cmat w)) \<le> k \<and> k < int (alen (mats2cmat w)) + int (2 * length (materials w) + 1)
            then Some (- 1) else aget (mats2cmat w) k))) \<and>
   addMaterial m (addMaterial m w) = addMaterial m w"
  by (simp add: addMaterial_def Let_def push_times_alen push_times_aget del: push_times.simps)

text \<open>Claim C7 at the first material of an empty world.\<close>

theorem addMaterial_spec_witness:
  "mat_id (material_of World0 0) = - 1 \<and>
   materials (addMaterial 0 World0) = [0] \<and>
   mat_id (material_of (addMaterial 0 World0) 0) = 0 \<and>
   alen (mats2cmat (addMaterial 0 World0)) = 1 \<and>
   aget (mats2cmat (addMaterial 0 World0)) 0 = Some (- 1) \<and>
   addMaterial 0 (addMaterial 0 World0) = addMaterial 0 World0"
  using addMaterial_spec [of World0 0]
  by (simp add: World0_def World_new_def Material_new_def js_empty_def)








section \<open>Properties of step\<close>

lemma fold_keeps:
  assumes "\<And>x s. sel (f x s) = sel s"
  shows "sel (fold f xs s) = sel s"
  by (induction xs arbitrary: s) (simp_all add: assms)

lemma for_bodies_keeps:
  assumes "\<And>x s. sel (f x s) = sel s"
  shows "sel (for_bodies f w) = sel w"
  unfolding for_bodies_def by (rule fold_keeps) (rule assms)

lemma settings_prims [simp]:
  "settings (update_body b f w) = settings w"
  "settings (dispatchEvent tg e w) = settings w"
  "settings (addEquation q w) = settings w"
  "settings (removeAllEquations w) = settings w"
  "settings (wakeUp b w) = settings w"
  "settings (collisionMatrixTick w) = settings w"
  "settings (update_subsystems ext w) = settings w"
  "settings (generate_contacts ext w) = settings w"
  "settings (pool_frictionEquations w) = settings w"
  "settings (mark_touching k w) = settings w"
  "settings (solve ext dt w) = settings w"
  "settings (advance_clock dt w) = settings w"
  "settings (w\<lparr>contacts := cs\<rparr>) = settings w"
  "settings (w\<lparr>frictionEquationPool := fp, frictionEquations := fq\<rparr>) = settings w"
  by (simp_all add: settings_def update_body_def dispatchEvent_def addEquation_def
      removeAllEquations_def wakeUp_def collisionMatrixTick_def update_subsystems_def
      generate_contacts_def pool_frictionEquations_def mark_touching_def solve_def
      advance_clock_def Let_def)

lemma clock_prims [simp]:
  "clock (update_body b f w) = clock w"
  "clock (dispatchEvent tg e w) = clock w"
  "clock (addEquation q w) = clock w"
  "clock (removeAllEquations w) = clock w"
  "clock (wakeUp b w) = clock w"
  "clock (collisionMatrixTick w) = clock w"
  "clock (update_subsystems ext w) = clock w"
  "clock (generate_contacts ext w) = clock w"
  "clock (pool_frictionEquations w) = clock w"
  "clock (mark_touching k w) = clock w"
  "clock (solve ext dt w) = clock w"
  "clock (w\<lparr>contacts := cs\<rparr>) = clock w"
  "clock (w\<lparr>frictionEquationPool := fp, frictionEquations := fq\<rparr>) = clock w"
  by (simp_all add: clock_def update_body_def dispatchEvent_def addEquation_def
      removeAllEquations_def wakeUp_def collisionMatrixTick_def update_subsystems_def
      generate_contacts_def pool_frictionEquations_def mark_touching_def solve_def Let_def)

lemma settings_add_friction [simp]: "settings (add_friction ext g mu c w) = settings w"
  unfolding add_friction_def Let_def by simp

lemma clock_add_friction [simp]: "clock (add_friction ext g mu c w) = clock w"
  unfolding add_friction_def Let_def by simp

lemma settings_respond [simp]: "settings (respond ext g k w) = settings w"
  unfolding respond_def Let_def by simp

lemma clock_respond [simp]: "clock (respond ext g k w) = clock w"
  unfolding respond_def Let_def by simp

lemma settings_first_contact [simp]: "settings (first_contact k w) = settings w"
  unfolding first_contact_def Let_def by simp

lemma clock_first_contact [simp]: "clock (first_contact k w) = clock w"
  unfolding first_contact_def Let_def by simp

lemma settings_handle_contact [simp]: "settings (handle_contact ext g k w) = settings w"
  unfolding handle_contact_def Let_def by simp

lemma clock_handle_contact [simp]: "clock (handle_contact ext g k w) = clock w"
  unfolding handle_contact_def Let_def by simp

lemma settings_makeContactConstraints [simp]: "settings (makeContactConstraints ext g w) = settings w"
  unfolding makeContactConstraints_def by (rule fold_keeps) simp

lemma clock_makeContactConstraints [simp]: "clock (makeContactConstraints ext g w) = clock w"
  unfolding makeContactConstraints_def by (rule fold_keeps) simp

lemma settings_addGravity [simp]: "settings (addGravity ext g w) = settings w"
  unfolding addGravity_def by (rule for_bodies_keeps) simp

lemma clock_addGravity [simp]: "clock (addGravity ext g w) = clock w"
  unfolding addGravity_def by (rule for_bodies_keeps) simp

lemma settings_before_contacts [simp]: "settings (before_contacts ext w) = settings w"
  unfolding before_contacts_def by simp

lemma clock_before_contacts [simp]: "clock (before_contacts ext w) = clock w"
  unfolding before_contacts_def by simp

lemma settings_gather [simp]: "settings (gather_constraints ext w) = settings w"
  unfolding gather_constraints_def add_constraint_equations_def
  by (rule fold_keeps, rule fold_keeps) simp

lemma clock_gather [simp]: "clock (gather_constraints ext w) = clock w"
  unfolding gather_constraints_def add_constraint_equations_def
  by (rule fold_keeps, rule fold_keeps) simp

lemma settings_callables [simp]:
  "settings (for_bodies (\<lambda>b s. s\<lparr>body_of := h b (body_of s)\<rparr>) w) = settings w"
  by (rule for_bodies_keeps) (simp add: settings_def)

lemma clock_callables [simp]:
  "clock (for_bodies (\<lambda>b s. s\<lparr>body_of := h b (body_of s)\<rparr>) w) = clock w"
  by (rule for_bodies_keeps) (simp add: clock_def)

lemma settings_update_loop [simp]:
  "settings (for_bodies (\<lambda>b s. update_body b (h s) s) w) = settings w"
  by (rule for_bodies_keeps) simp

lemma clock_update_loop [simp]:
  "clock (for_bodies (\<lambda>b s. update_body b (h s) s) w) = clock w"
  by (rule for_bodies_keeps) simp

lemma settings_solve_phase [simp]: "settings (solve_phase ext dt w) = settings w"
  unfolding solve_phase_def by simp

lemma clock_solve_phase [simp]: "clock (solve_phase ext dt w) = clock w"
  unfolding solve_phase_def by simp

lemma settings_integrate [simp]: "settings (integrate ext dt w) = settings w"
  unfolding integrate_def by simp

lemma clock_integrate [simp]: "clock (integrate ext dt w) = clock w"
  unfolding integrate_def by simp

lemma settings_sleep_update [simp]: "settings (sleep_update ext w) = settings w"
  unfolding sleep_update_def by simp

lemma clock_sleep_update [simp]: "clock (sleep_update ext w) = clock w"
  unfolding sleep_update_def by simp

lemma settings_finish_step [simp]: "settings (finish_step ext dt w) = settings w"
  unfolding finish_step_def by simp

lemma clock_advance [simp]: "clock (advance_clock dt w) = (time w + dt, stepnumber w + 1)"
  by (simp add: clock_def advance_clock_def)

lemma clock_finish_step [simp]:
  "clock (finish_step ext dt w) = (time w + dt, stepnumber w + 1)"
  unfolding finish_step_def by simp

lemma settings_step: "settings (step ext dt w) = settings w"
  unfolding step_def by simp

lemma clock_step: "clock (step ext dt w) = (time w + resolve_dt w dt, stepnumber w + 1)"
proof -
  let ?s = "integrate ext (resolve_dt w dt) (solve_phase ext (resolve_dt w dt)
      (makeContactConstraints ext (Vec3_norm (gravity w)) (before_contacts ext w)))"
  have "clock ?s = clock w" by simp
  then have "time ?s = time w" "stepnumber ?s = stepnumber w" by (simp_all add: clock_def)
  then show ?thesis unfolding step_def by simp
qed

lemma World0_dt: "time World0 = 0" "last_dt World0 = 1 / 60" "default_dt World0 = 1 / 60"
  by (simp_all add: World0_def World_new_def)

text \<open>
  Claim C1, evaluated on the code. step reads \<open>last_dt\<close> when it is called without
  an argument, and nothing in World.js ever assigns it: it keeps the value the
  constructor gave it, 1/60. In a fresh world, step(1/30) followed by step() advances
  the clock by 1/30 and then by 1/60, for every choice of the collaborators.
\<close>

theorem step_without_dt_ignores_previous_dt:
  "last_dt (step ext (Some (1 / 30)) World0) = 1 / 60 \<and>
   time (step ext (Some (1 / 30)) World0) = 1 / 30 \<and>
   time (step ext None (step ext (Some (1 / 30)) World0)) = 1 / 30 + 1 / 60"
proof -
  let ?w1 = "step ext (Some (1 / 30)) World0"
  have s1: "settings ?w1 = settings World0" by (rule settings_step)
  then have l1: "last_dt ?w1 = 1 / 60" by (simp add: settings_def World0_dt)
  have "clock ?w1 = (time World0 + resolve_dt World0 (Some (1 / 30)), stepnumber World0 + 1)"
    by (rule clock_step)
  then have t1: "time ?w1 = 1 / 30" by (simp add: clock_def resolve_dt_def World0_dt)
  have "clock (step ext None ?w1) = (time ?w1 + resolve_dt ?w1 None, stepnumber ?w1 + 1)"
    by (rule clock_step)
  then have "time (step ext None ?w1) = time ?w1 + resolve_dt ?w1 None" by (simp add: clock_def)
  with l1 t1 show ?thesis by (simp add: resolve_dt_def)
qed

lemma add_friction_effect:
  "\<exists>f1 f2. solver_equations (add_friction ext g mu c w) = solver_equations w @ [FrictionEq f1, FrictionEq f2]
       \<and> frictionEquations (add_friction ext g mu c w) = frictionEquations w @ [f1, f2]
       \<and> minForce f1 = - (mu * g * reducedMass_of w c) \<and> maxForce f1 = mu * g * reducedMass_of w c
       \<and> minForce f2 = - (mu * g * reducedMass_of w c) \<and> maxForce f2 = mu * g * reducedMass_of w c"
  unfolding add_friction_def Let_def by (simp add: addEquation_def)

lemma add_friction_contacts: "contacts (add_friction ext g mu c w) = contacts w"
  unfolding add_friction_def Let_def by (simp add: addEquation_def)

text \<open>The state of respond before the friction equations are added.\<close>

lemma respond_contact_only:
  assumes "k < length (contacts w)"
    and "c = (contacts w ! k)
          \<lparr>restitution := cm_restitution (resolve_material w (contacts w ! k)),
           penetration := gap w (contacts w ! k),
           stiffness := contactEquationStiffness (resolve_material w (contacts w ! k)),
           regularizationTime := contactEquationRegularizationTime (resolve_material w (contacts w ! k))\<rparr>"
    and "w1 = addEquation (ContactEq c) (w\<lparr>contacts := (contacts w)[k := c]\<rparr>)"
  shows "respond ext g k w =
           (if friction (resolve_material w (contacts w ! k)) > 0
            then add_friction ext g (friction (resolve_material w (contacts w ! k))) c w1 else w1)"
    and "solver_equations w1 = solver_equations w @ [ContactEq c]"
    and "frictionEquations w1 = frictionEquations w"
    and "contacts w1 ! k = c"
    and "reducedMass_of w1 c = reducedMass_of w (contacts w ! k)"
  using assms unfolding respond_def Let_def
  by (simp_all add: addEquation_def reducedMass_of_def)

lemma respond_effect:
  assumes k: "k < length (contacts w)"
  shows "(0 < friction (resolve_material w (contacts w ! k)) \<longrightarrow>
           (\<exists>f1 f2. solver_equations (respond ext g k w) =
                       solver_equations w @ [ContactEq (contacts (respond ext g k w) ! k), FrictionEq f1, FrictionEq f2]
                \<and> frictionEquations (respond ext g k w) = frictionEquations w @ [f1, f2]
                \<and> minForce f1 = - (friction (resolve_material w (contacts w ! k)) * g * reducedMass_of w (contacts w ! k))
                \<and> maxForce f1 = friction (resolve_material w (contacts w ! k)) * g * reducedMass_of w (contacts w ! k)
                \<and> minForce f2 = - (friction (resolve_material w (contacts w ! k)) * g * reducedMass_of w (contacts w ! k))
                \<and> maxForce f2 = friction (resolve_material w (contacts w ! k)) * g * reducedMass_of w (contacts w ! k)))
       \<and> (\<not> 0 < friction (resolve_material w (contacts w ! k)) \<longrightarrow>
            solver_equations (respond ext g k w) = solver_equations w @ [ContactEq (contacts (respond ext g k w) ! k)]
            \<and> frictionEquations (respond ext g k w) = frictionEquations w)"
proof -
  let ?mu = "friction (resolve_material w (contacts w ! k))"
  define c where "c = (contacts w ! k)
          \<lparr>restitution := cm_restitution (resolve_material w (contacts w ! k)),
           penetration := gap w (contacts w ! k),
           stiffness := contactEquationStiffness (resolve_material w (contacts w ! k)),
           regularizationTime := contactEquationRegularizationTime (resolve_material w (contacts w ! k))\<rparr>"
  define w1 where "w1 = addEquation (ContactEq c) (w\<lparr>contacts := (contacts w)[k := c]\<rparr>)"
  note r = respond_contact_only [OF k c_def w1_def]
  show ?thesis
  proof (cases "0 < ?mu")
    case True
    then have eq: "respond ext g k w = add_friction ext g ?mu c w1" using r(1) by simp
    from add_friction_effect [of ext g ?mu c w1] obtain f1 f2 where
      f: "solver_equations (add_friction ext g ?mu c w1) = solver_equations w1 @ [FrictionEq f1, FrictionEq f2]"
         "frictionEquations (add_friction ext g ?mu c w1) = frictionEquations w1 @ [f1, f2]"
         "minForce f1 = - (?mu * g * reducedMass_of w1 c)" "maxForce f1 = ?mu * g * reducedMass_of w1 c"
         "minForce f2 = - (?mu * g * reducedMass_of w1 c)" "maxForce f2 = ?mu * g * reducedMass_of w1 c"
      by blast
    have "contacts (respond ext g k w) ! k = c"
      unfolding eq add_friction_contacts by (rule r(4))
    then have "solver_equations (respond ext g k w) =
                       solver_equations w @ [ContactEq (contacts (respond ext g k w) ! k), FrictionEq f1, FrictionEq f2]
                \<and> frictionEquations (respond ext g k w) = frictionEquations w @ [f1, f2]
                \<and> minForce f1 = - (?mu * g * reducedMass_of w (contacts w ! k))
                \<and> maxForce f1 = ?mu * g * reducedMass_of w (contacts w ! k)
                \<and> minForce f2 = - (?mu * g * reducedMass_of w (contacts w ! k))
                \<and> maxForce f2 = ?mu * g * reducedMass_of w (contacts w ! k)"
      unfolding eq f r(2,3,5) by simp
    then show ?thesis using True by blast
  next
    case False
    then have eq: "respond ext g k w = w1" using r(1) by simp
    show ?thesis using False unfolding eq r(2,3,4) by simp
  qed
qed

lemma after_response_frame:
  "solver_equations (mark_touching k w) = solver_equations w"
  "frictionEquations (mark_touching k w) = frictionEquations w"
  "contacts (mark_touching k w) = contacts w"
  "solver_equations (first_contact k w) = solver_equations w"
  "frictionEquations (first_contact k w) = frictionEquations w"
  "contacts (first_contact k w) = contacts w"
  by (simp_all add: mark_touching_def first_contact_def Let_def wakeUp_def update_body_def
      dispatchEvent_def)

lemma handle_contact_responding:
  assumes "gap w (contacts w ! k) < 0"
    and "collisionResponse (body_of w (bi (contacts w ! k)))"
    and "collisionResponse (body_of w (bj (contacts w ! k)))"
  shows "solver_equations (handle_contact ext g k w) = solver_equations (respond ext g k w)"
    and "frictionEquations (handle_contact ext g k w) = frictionEquations (respond ext g k w)"
    and "contacts (handle_contact ext g k w) = contacts (respond ext g k w)"
  using assms unfolding handle_contact_def Let_def
  by (simp_all add: after_response_frame)

lemma run_settings: "settings (run ext dts w) = settings w"
  unfolding run_def by (rule fold_keeps) (rule settings_step)

lemma run_stepnumber: "stepnumber (run ext dts w) = stepnumber w + int (length dts)"
  unfolding run_def
proof (induction dts arbitrary: w)
  case Nil
  then show ?case by simp
next
  case (Cons d ds)
  have "clock (step ext d w) = (time w + resolve_dt w d, stepnumber w + 1)" by (rule clock_step)
  then have "stepnumber (step ext d w) = stepnumber w + 1" by (simp add: clock_def)
  with Cons [of "step ext d w"] show ?case by simp
qed

lemma quatNormalize_iff:
  assumes "0 \<le> stepnumber w" "0 \<le> quatNormalizeSkip w"
  shows "quatNormalize w \<longleftrightarrow> stepnumber w mod (quatNormalizeSkip w + 1) = 0"
proof (cases "stepnumber w = 0")
  case True
  then show ?thesis using assms by (simp add: quatNormalize_def js_rem_def)
next
  case False
  with assms have "sgn (stepnumber w) = 1" by simp
  then show ?thesis using assms by (simp add: quatNormalize_def js_rem_def)
qed

lemma fold_update_body:
  "distinct bs \<Longrightarrow>
   body_of (fold (\<lambda>b. update_body b f) bs w) x = (if x \<in> set bs then f (body_of w x) else body_of w x)"
proof (induction bs arbitrary: w)
  case Nil
  then show ?case by simp
next
  case (Cons b bs)
  then show ?case by (auto simp: update_body_def)
qed

lemma integrate_body_of:
  assumes "distinct (bodies w)" "b \<in> set (bodies w)"
  shows "body_of (integrate ext dt w) b =
     integrate_body ext dt (quatNormalize w) (quatNormalizeFast w) (body_of w b)"
  using assms unfolding integrate_def for_bodies_def by (simp add: fold_update_body)

lemma integrate_body_quaternion:
  assumes "rigid bd"
    and "motionstate bd AND (Body_DYNAMIC ext OR Body_KINEMATIC ext) \<noteq> 0"
    and "\<not> isSleeping bd"
  shows "quaternion (integrate_body ext dt qn qfast bd) =
     (if qn then (if qfast then quat_normalizeFast ext (integrate_quat dt (spun dt bd) (quaternion bd))
                  else quat_normalize ext (integrate_quat dt (spun dt bd) (quaternion bd)))
      else integrate_quat dt (spun dt bd) (quaternion bd))"
  using assms unfolding integrate_body_def move_body_def Let_def spun_def by simp

text \<open>
  Claim C6. Take a world whose step counter is 0 and whose quatNormalizeSkip is
  \<open>k \<ge> 0\<close>, run \<open>n\<close> steps on it, and look at the next step, step number \<open>n\<close>: it is
  the integration of the state \<open>s\<close> that the earlier phases of that step produce. For a
  body that is in the registry once and is, at that point, rigid, dynamic or kinematic,
  and not sleeping, the quaternion after the integration is the normalisation (exact or
  fast, as quatNormalizeFast says) of the derivative update \<open>q\<close> if \<open>n mod (k + 1) = 0\<close>,
  and \<open>q\<close> itself otherwise.
\<close>

theorem quaternion_normalized_every_skip_plus_one:
  assumes "stepnumber w0 = 0"
    and "quatNormalizeSkip w0 = k"
    and "0 \<le> k"
    and "w = run ext dts w0"
    and "n = length dts"
    and "dt = resolve_dt w arg"
    and "s = solve_phase ext dt (makeContactConstraints ext (Vec3_norm (gravity w)) (before_contacts ext w))"
    and "distinct (bodies s)"
    and "b \<in> set (bodies s)"
    and "rigid (body_of s b)"
    and "motionstate (body_of s b) AND (Body_DYNAMIC ext OR Body_KINEMATIC ext) \<noteq> 0"
    and "\<not> isSleeping (body_of s b)"
    and "q = integrate_quat dt (spun dt (body_of s b)) (quaternion (body_of s b))"
  shows "step ext arg w = finish_step ext dt (integrate ext dt s)
       \<and> quaternion (body_of (integrate ext dt s) b) =
           (if int n mod (k + 1) = 0
            then (if quatNormalizeFast w0 then quat_normalizeFast ext q else quat_normalize ext q)
            else q)"
proof -
  have whole: "step ext arg w = finish_step ext dt (integrate ext dt s)"
    using assms(6,7) by (simp add: step_def)
  have "settings s = settings w" using assms(7) by simp
  moreover have "settings w = settings w0" using assms(4) by (simp add: run_settings)
  ultimately have set: "quatNormalizeSkip s = k" "quatNormalizeFast s = quatNormalizeFast w0"
    using assms(2) by (simp_all add: settings_def)
  have "clock s = clock w" using assms(7) by simp
  then have "stepnumber s = stepnumber w" by (simp add: clock_def)
  then have num: "stepnumber s = int n" using assms(1,4,5) by (simp add: run_stepnumber)
  have qn: "quatNormalize s \<longleftrightarrow> int n mod (k + 1) = 0"
    using quatNormalize_iff [of s] num set(1) assms(3) by simp
  have "quaternion (body_of (integrate ext dt s) b) =
           (if int n mod (k + 1) = 0
            then (if quatNormalizeFast w0 then quat_normalizeFast ext q else quat_normalize ext q)
            else q)"
    using assms(8-13) qn set(2)
    by (simp add: integrate_body_of integrate_body_quaternion)
  with whole show ?thesis by simp
qed

lemmas phase_defs = before_contacts_def addGravity_def for_bodies_def update_subsystems_def
      collisionMatrixTick_def generate_contacts_def pool_frictionEquations_def
      makeContactConstraints_def solve_phase_def gather_constraints_def solve_def
      removeAllEquations_def dispatchEvent_def update_body_def gravity_body_def damp_body_def
      integrate_def integrate_body_def move_body_def finish_step_def advance_clock_def
      sleep_update_def isSleeping_def

lemma World_spin2_after_one_step:
  "bodies (step ext_unit None World_spin2) = [2]"
  "rigid (body_of (step ext_unit None World_spin2) 2)"
  "motionstate (body_of (step ext_unit None World_spin2) 2) = 1"
  "sleepState (body_of (step ext_unit None World_spin2) 2) = AWAKE"
  "contacts (step ext_unit None World_spin2) = []"
  "constraints (step ext_unit None World_spin2) = []"
  "gravity (step ext_unit None World_spin2) = Vec3_new"
  "last_dt (step ext_unit None World_spin2) = 1 / 60"
  unfolding step_def
  by (simp_all add: phase_defs resolve_dt_def
      ext_unit_def ext0_def World_spin2_def World_spin_def World0_def World_new_def Body_new_def Let_def cm_reset_def)

lemma World_spin2_second_integration:
  "bodies (solve_phase ext_unit (1 / 60)
     (makeContactConstraints ext_unit (Vec3_norm (gravity (step ext_unit None World_spin2)))
       (before_contacts ext_unit (step ext_unit None World_spin2)))) = [2]"
  "rigid (body_of (solve_phase ext_unit (1 / 60)
     (makeContactConstraints ext_unit (Vec3_norm (gravity (step ext_unit None World_spin2)))
       (before_contacts ext_unit (step ext_unit None World_spin2)))) 2)"
  "motionstate (body_of (solve_phase ext_unit (1 / 60)
     (makeContactConstraints ext_unit (Vec3_norm (gravity (step ext_unit None World_spin2)))
       (before_contacts ext_unit (step ext_unit None World_spin2)))) 2) = 1"
  "sleepState (body_of (solve_phase ext_unit (1 / 60)
     (makeContactConstraints ext_unit (Vec3_norm (gravity (step ext_unit None World_spin2)))
       (before_contacts ext_unit (step ext_unit None World_spin2)))) 2) = AWAKE"
  unfolding step_def
  by (simp_all add: phase_defs resolve_dt_def
      ext_unit_def ext0_def World_spin2_def World_spin_def World0_def World_new_def Body_new_def Let_def cm_reset_def)

text \<open>
  Claim C6 at the spinning body, with quatNormalizeSkip = 1, in step number 1: the
  quaternion is left as the derivative update gives it.
\<close>

theorem quaternion_normalized_every_skip_plus_one_witness:
  "stepnumber World_spin2 = 0 \<and> quatNormalizeSkip World_spin2 = 1
   \<and> rigid (body_of (solve_phase ext_unit (1 / 60)
        (makeContactConstraints ext_unit (Vec3_norm (gravity (run ext_unit [None] World_spin2)))
          (before_contacts ext_unit (run ext_unit [None] World_spin2)))) 2)
   \<and> quaternion (body_of (integrate ext_unit (1 / 60) (solve_phase ext_unit (1 / 60)
        (makeContactConstraints ext_unit (Vec3_norm (gravity (run ext_unit [None] World_spin2)))
          (before_contacts ext_unit (run ext_unit [None] World_spin2))))) 2)
       = integrate_quat (1 / 60)
           (spun (1 / 60) (body_of (solve_phase ext_unit (1 / 60)
              (makeContactConstraints ext_unit (Vec3_norm (gravity (run ext_unit [None] World_spin2)))
                (before_contacts ext_unit (run ext_unit [None] World_spin2)))) 2))
           (quaternion (body_of (solve_phase ext_unit (1 / 60)
              (makeContactConstraints ext_unit (Vec3_norm (gravity (run ext_unit [None] World_spin2)))
                (before_contacts ext_unit (run ext_unit [None] World_spin2)))) 2))"
proof -
  have r: "run ext_unit [None] World_spin2 = step ext_unit None World_spin2"
    by (simp add: run_def)
  have z: "stepnumber World_spin2 = 0" "quatNormalizeSkip World_spin2 = 1"
    by (simp_all add: World_spin2_def World_spin_def World0_def World_new_def)
  have dt: "resolve_dt (step ext_unit None World_spin2) None = 1 / 60"
    by (simp add: resolve_dt_def World_spin2_after_one_step)
  have u: "Body_DYNAMIC ext_unit OR Body_KINEMATIC ext_unit = 5"
    by (simp add: ext_unit_def ext0_def)
  show ?thesis
    using quaternion_normalized_every_skip_plus_one [of World_spin2 1 "run ext_unit [None] World_spin2"
        ext_unit "[None]" 1 "1 / 60" None _ 2, OF z(1) z(2) _ refl _ _ refl]
    by (simp add: r z dt u World_spin2_second_integration isSleeping_def)
qed

lemma map_update_same: "f y = f (xs ! k) \<Longrightarrow> map f (xs[k := y]) = map f xs"
  by (cases "k < length xs") (simp_all add: map_update list_update_same_conv list_update_beyond)

lemma gap_cong:
  "(\<And>x. position (body_of w' x) = position (body_of w x)) \<Longrightarrow>
   bi c' = bi c \<Longrightarrow> bj c' = bj c \<Longrightarrow> ri c' = ri c \<Longrightarrow> rj c' = rj c \<Longrightarrow> ni c' = ni c \<Longrightarrow>
   gap w' c' = gap w c"
  by (simp add: gap_def)

lemma scene_prims [simp]:
  "scene (dispatchEvent tg e w) = scene w"
  "scene (addEquation q w) = scene w"
  "scene (wakeUp b w) = scene w"
  "scene (mark_touching k w) = scene w"
  "scene (w\<lparr>frictionEquationPool := fp, frictionEquations := fq\<rparr>) = scene w"
  by (simp_all add: scene_def gap_def dispatchEvent_def addEquation_def wakeUp_def update_body_def
      mark_touching_def)

lemma scene_add_friction [simp]: "scene (add_friction ext g mu c w) = scene w"
  unfolding add_friction_def Let_def by simp

lemma gap_set_contacts [simp]: "gap (w\<lparr>contacts := cs\<rparr>) = gap w"
  by (simp add: gap_def fun_eq_iff)

lemma scene_set_contact:
  assumes "bi c = bi (contacts w ! k)" "bj c = bj (contacts w ! k)"
    "ri c = ri (contacts w ! k)" "rj c = rj (contacts w ! k)" "ni c = ni (contacts w ! k)"
  shows "scene (w\<lparr>contacts := (contacts w)[k := c]\<rparr>) = scene w"
proof -
  have "(bi c, bj c, gap w c) = (bi (contacts w ! k), bj (contacts w ! k), gap w (contacts w ! k))"
    using assms by (simp add: gap_def)
  then have "map (\<lambda>c. (bi c, bj c, gap w c)) ((contacts w)[k := c]) = map (\<lambda>c. (bi c, bj c, gap w c)) (contacts w)"
    by (rule map_update_same)
  then show ?thesis by (simp add: scene_def)
qed

lemma scene_respond [simp]: "scene (respond ext g k w) = scene w"
  unfolding respond_def Let_def by (simp add: scene_set_contact)

lemma scene_first_contact [simp]: "scene (first_contact k w) = scene w"
  unfolding first_contact_def Let_def by simp

lemma scene_handle_contact [simp]: "scene (handle_contact ext g k w) = scene w"
  unfolding handle_contact_def Let_def by simp

lemma scene_nth:
  assumes "scene w' = scene w" "k < length (contacts w)"
  shows "bi (contacts w' ! k) = bi (contacts w ! k)"
    and "bj (contacts w' ! k) = bj (contacts w ! k)"
    and "gap w' (contacts w' ! k) = gap w (contacts w ! k)"
proof -
  from assms(1) have m: "map (\<lambda>c. (bi c, bj c, gap w' c)) (contacts w') = map (\<lambda>c. (bi c, bj c, gap w c)) (contacts w)"
    by (simp add: scene_def)
  then have len: "length (contacts w') = length (contacts w)" by (rule map_eq_imp_length_eq)
  from m have "map (\<lambda>c. (bi c, bj c, gap w' c)) (contacts w') ! k = map (\<lambda>c. (bi c, bj c, gap w c)) (contacts w) ! k"
    by simp
  with assms(2) len have "(bi (contacts w' ! k), bj (contacts w' ! k), gap w' (contacts w' ! k))
      = (bi (contacts w ! k), bj (contacts w ! k), gap w (contacts w ! k))" by simp
  then show "bi (contacts w' ! k) = bi (contacts w ! k)"
    and "bj (contacts w' ! k) = bj (contacts w ! k)"
    and "gap w' (contacts w' ! k) = gap w (contacts w ! k)" by simp_all
qed

lemma scene_length: "scene w' = scene w \<Longrightarrow> length (contacts w') = length (contacts w)"
proof -
  assume "scene w' = scene w"
  then have "map (\<lambda>c. (bi c, bj c, gap w' c)) (contacts w') = map (\<lambda>c. (bi c, bj c, gap w c)) (contacts w)"
    by (simp add: scene_def)
  then show ?thesis by (rule map_eq_imp_length_eq)
qed

lemma scene_previous: "scene w' = scene w \<Longrightarrow> collisionMatrixPrevious w' = collisionMatrixPrevious w"
  by (simp add: scene_def)

lemma scene_fires:
  assumes "scene w' = scene w" "k < length (contacts w)"
  shows "fires w' k = fires w k"
  unfolding fires_def scene_nth [OF assms] scene_previous [OF assms(1)] by (rule refl)

lemma scene_rising:
  assumes "scene w' = scene w" "k < length (contacts w)"
  shows "rising w' a b k = rising w a b k"
  unfolding rising_def scene_nth [OF assms] scene_fires [OF assms] by (rule refl)

lemma respond_frame:
  "dispatched (respond ext g k w) = dispatched w"
  "collisionMatrix (respond ext g k w) = collisionMatrix w"
  "body_of (respond ext g k w) = body_of w"
  unfolding respond_def add_friction_def Let_def by (simp_all add: addEquation_def)

lemma mark_touching_frame:
  "dispatched (mark_touching k w) = dispatched w"
  "body_of (mark_touching k w) = body_of w"
  "collisionMatrixPrevious (mark_touching k w) = collisionMatrixPrevious w"
  "contacts (mark_touching k w) = contacts w"
  "cm_touching (collisionMatrix (mark_touching k w)) =
     insert (cm_key (bi (contacts w ! k)) (bj (contacts w ! k))) (cm_touching (collisionMatrix w))"
  by (simp_all add: mark_touching_def cm_set_def)

lemma first_contact_effect:
  "dispatched (first_contact k w) = dispatched w @
     [(BodyTarget (bi (contacts w ! k)), CollideEvent (bj (contacts w ! k)) (contacts w ! k)),
      (BodyTarget (bj (contacts w ! k)), CollideEvent (bi (contacts w ! k)) (contacts w ! k))]"
  "collisionMatrix (first_contact k w) = collisionMatrix w"
  "sleepState (body_of (first_contact k w) (bi (contacts w ! k))) = AWAKE"
  "sleepState (body_of (first_contact k w) (bj (contacts w ! k))) = AWAKE"
  "sleepState (body_of w x) = AWAKE \<Longrightarrow> sleepState (body_of (first_contact k w) x) = AWAKE"
  by (simp_all add: first_contact_def Let_def wakeUp_def update_body_def dispatchEvent_def)

lemma is_new_contact_marked:
  "is_new_contact k (mark_touching k w) \<longleftrightarrow>
     \<not> cm_get (collisionMatrixPrevious w) (bi (contacts w ! k)) (bj (contacts w ! k))"
  unfolding is_new_contact_def cm_get_def mark_touching_frame by simp

lemma collide_count_Nil: "collide_count a b [] = 0"
  by (simp add: collide_count_def)

lemma collide_count_Cons:
  "collide_count a b ((BodyTarget x, CollideEvent y c) # evs) =
     (if x = a \<and> y = b then 1 else 0) + collide_count a b evs"
  unfolding collide_count_def by (simp del: One_nat_def)

lemma collide_count_world: "collide_count a b ((WorldTarget, e) # evs) = collide_count a b evs"
  by (simp add: collide_count_def)

lemma collide_count_append: "collide_count a b (xs @ ys) = collide_count a b xs + collide_count a b ys"
  by (simp add: collide_count_def)

lemma collide_count_pair:
  "collide_count a b [(BodyTarget x, CollideEvent y c), (BodyTarget y, CollideEvent x c)] =
     (if x = a \<and> y = b then 1 else 0) + (if y = a \<and> x = b then 1 else 0)"
  by (simp only: collide_count_Cons collide_count_Nil add_0_right)

text \<open>The pass over contact \<open>k\<close>, seen from the state before it.\<close>

lemma handle_contact_cases:
  fixes ext g
  assumes k: "k < length (contacts w)"
  defines "m \<equiv> after_response ext g k w"
  shows "handle_contact ext g k w =
      (if gap w (contacts w ! k) < 0 then (if fires w k then first_contact k m else m) else w)"
    and "scene m = scene w"
    and "dispatched m = dispatched w"
    and "body_of m = body_of w"
    and "cm_touching (collisionMatrix m) =
           insert (cm_key (bi (contacts w ! k)) (bj (contacts w ! k))) (cm_touching (collisionMatrix w))"
    and "bi (contacts m ! k) = bi (contacts w ! k)"
    and "bj (contacts m ! k) = bj (contacts w ! k)"
proof -
  let ?w1 = "if collisionResponse (body_of w (bi (contacts w ! k))) \<and> collisionResponse (body_of w (bj (contacts w ! k)))
       then respond ext g k w else w"
  have s1: "scene ?w1 = scene w" by simp
  show sm: "scene m = scene w" unfolding m_def after_response_def by simp
  show "dispatched m = dispatched w" unfolding m_def after_response_def
    by (simp add: mark_touching_frame respond_frame)
  show "body_of m = body_of w" unfolding m_def after_response_def
    by (simp add: mark_touching_frame respond_frame)
  have b1: "bi (contacts ?w1 ! k) = bi (contacts w ! k)" "bj (contacts ?w1 ! k) = bj (contacts w ! k)"
    using scene_nth [OF s1 k] by simp_all
  show "cm_touching (collisionMatrix m) =
           insert (cm_key (bi (contacts w ! k)) (bj (contacts w ! k))) (cm_touching (collisionMatrix w))"
    unfolding m_def after_response_def mark_touching_frame b1 by (simp add: respond_frame)
  show bm: "bi (contacts m ! k) = bi (contacts w ! k)" "bj (contacts m ! k) = bj (contacts w ! k)"
    using scene_nth [OF sm k] by simp_all
  have "is_new_contact k m \<longleftrightarrow>
      \<not> cm_get (collisionMatrixPrevious ?w1) (bi (contacts ?w1 ! k)) (bj (contacts ?w1 ! k))"
    unfolding m_def after_response_def by (rule is_new_contact_marked)
  then have new: "is_new_contact k m \<longleftrightarrow>
      \<not> cm_get (collisionMatrixPrevious w) (bi (contacts w ! k)) (bj (contacts w ! k))"
    unfolding b1 scene_previous [OF s1] .
  show "handle_contact ext g k w =
      (if gap w (contacts w ! k) < 0 then (if fires w k then first_contact k m else m) else w)"
    unfolding handle_contact_def Let_def after_response_def [symmetric] m_def [symmetric] new fires_def
    by simp
qed

lemma handle_contact_dispatched:
  assumes k: "k < length (contacts w)"
  shows "\<exists>E. dispatched (handle_contact ext g k w) = dispatched w @ E \<and> collide_count a b E = rising w a b k"
proof -
  note hc = handle_contact_cases [OF k, of ext g]
  show ?thesis
  proof (cases "fires w k")
    case True
    then have "gap w (contacts w ! k) < 0" by (simp add: fires_def)
    with True show ?thesis
      unfolding hc(1)
      by (simp add: first_contact_effect hc(3,6,7) collide_count_pair rising_def)
  next
    case False
    then have "dispatched (handle_contact ext g k w) = dispatched w @ []"
      unfolding hc(1) by (simp add: hc(3))
    moreover have "collide_count a b [] = rising w a b k"
      using False by (simp add: collide_count_def rising_def)
    ultimately show ?thesis by blast
  qed
qed

lemma handle_contact_matrix:
  assumes k: "k < length (contacts w)"
  shows "cm_touching (collisionMatrix (handle_contact ext g k w)) =
     (if gap w (contacts w ! k) < 0
      then insert (cm_key (bi (contacts w ! k)) (bj (contacts w ! k))) (cm_touching (collisionMatrix w))
      else cm_touching (collisionMatrix w))"
  unfolding handle_contact_cases(1) [OF k]
  by (simp add: first_contact_effect handle_contact_cases(5) [OF k])

lemma handle_contact_stays_awake:
  assumes k: "k < length (contacts w)" and "sleepState (body_of w x) = AWAKE"
  shows "sleepState (body_of (handle_contact ext g k w) x) = AWAKE"
  unfolding handle_contact_cases(1) [OF k]
  using assms(2) by (simp add: first_contact_effect handle_contact_cases(4) [OF k])

lemma handle_contact_wakes:
  assumes k: "k < length (contacts w)" and "fires w k"
    and "x = bi (contacts w ! k) \<or> x = bj (contacts w ! k)"
  shows "sleepState (body_of (handle_contact ext g k w) x) = AWAKE"
proof -
  note hc = handle_contact_cases [OF k, of ext g]
  from assms(2) have "gap w (contacts w ! k) < 0" by (simp add: fires_def)
  with assms(2) have "handle_contact ext g k w = first_contact k (after_response ext g k w)"
    unfolding hc(1) by simp
  moreover have "sleepState (body_of (first_contact k (after_response ext g k w)) x) = AWAKE"
    using assms(3) first_contact_effect(3,4) [of k "after_response ext g k w"]
    unfolding hc(6,7) by auto
  ultimately show ?thesis by simp
qed

lemma loop_scene: "scene (fold (handle_contact ext g) ks w) = scene w"
  by (rule fold_keeps) simp

lemma loop_dispatched:
  assumes "\<forall>k\<in>set ks. k < length (contacts w)"
  shows "\<exists>E. dispatched (fold (handle_contact ext g) ks w) = dispatched w @ E
           \<and> collide_count a b E = sum_list (map (rising w a b) ks)"
  using assms
proof (induction ks arbitrary: w)
  case Nil
  have "dispatched w = dispatched w @ [] \<and> collide_count a b [] = 0"
    by (simp add: collide_count_Nil)
  then show ?case by auto
next
  case (Cons k ks)
  let ?w1 = "handle_contact ext g k w"
  have k: "k < length (contacts w)" using Cons.prems by simp
  have sc: "scene ?w1 = scene w" by simp
  have in_range: "\<forall>j\<in>set ks. j < length (contacts ?w1)"
    using Cons.prems scene_length [OF sc] by simp
  from Cons.IH [OF in_range] obtain E' where
    E': "dispatched (fold (handle_contact ext g) ks ?w1) = dispatched ?w1 @ E'"
        "collide_count a b E' = sum_list (map (rising ?w1 a b) ks)" by blast
  have "map (rising ?w1 a b) ks = map (rising w a b) ks"
  proof (rule map_cong [OF refl])
    fix j assume "j \<in> set ks"
    then have "j < length (contacts w)" using Cons.prems by simp
    then show "rising ?w1 a b j = rising w a b j" by (rule scene_rising [OF sc])
  qed
  with E'(2) have cnt: "collide_count a b E' = sum_list (map (rising w a b) ks)" by simp
  from handle_contact_dispatched [OF k, of ext g a b] obtain E0 where
    E0: "dispatched ?w1 = dispatched w @ E0" "collide_count a b E0 = rising w a b k" by blast
  have "dispatched (fold (handle_contact ext g) (k # ks) w) = dispatched w @ (E0 @ E')"
    using E'(1) E0(1) by simp
  moreover have "collide_count a b (E0 @ E') = sum_list (map (rising w a b) (k # ks))"
    using cnt E0(2) by (simp add: collide_count_append)
  ultimately show ?case by blast
qed

lemma loop_matrix:
  assumes "\<forall>k\<in>set ks. k < length (contacts w)"
  shows "cm_touching (collisionMatrix (fold (handle_contact ext g) ks w)) =
     cm_touching (collisionMatrix w) \<union>
       (\<lambda>k. cm_key (bi (contacts w ! k)) (bj (contacts w ! k))) ` {k \<in> set ks. gap w (contacts w ! k) < 0}"
  using assms
proof (induction ks arbitrary: w)
  case Nil
  then show ?case by simp
next
  case (Cons k ks)
  let ?w1 = "handle_contact ext g k w"
  have k: "k < length (contacts w)" using Cons.prems by simp
  have sc: "scene ?w1 = scene w" by simp
  have in_range: "\<forall>j\<in>set ks. j < length (contacts ?w1)"
    using Cons.prems scene_length [OF sc] by simp
  have same: "(\<lambda>j. cm_key (bi (contacts ?w1 ! j)) (bj (contacts ?w1 ! j))) ` {j \<in> set ks. gap ?w1 (contacts ?w1 ! j) < 0}
      = (\<lambda>j. cm_key (bi (contacts w ! j)) (bj (contacts w ! j))) ` {j \<in> set ks. gap w (contacts w ! j) < 0}"
  proof -
    have "\<And>j. j \<in> set ks \<Longrightarrow> gap ?w1 (contacts ?w1 ! j) = gap w (contacts w ! j)
        \<and> bi (contacts ?w1 ! j) = bi (contacts w ! j) \<and> bj (contacts ?w1 ! j) = bj (contacts w ! j)"
    proof -
      fix j assume "j \<in> set ks"
      then have "j < length (contacts w)" using Cons.prems by simp
      from scene_nth [OF sc this] show "gap ?w1 (contacts ?w1 ! j) = gap w (contacts w ! j)
        \<and> bi (contacts ?w1 ! j) = bi (contacts w ! j) \<and> bj (contacts ?w1 ! j) = bj (contacts w ! j)"
        by simp
    qed
    then show ?thesis by (intro image_cong Collect_cong) auto
  qed
  have "cm_touching (collisionMatrix (fold (handle_contact ext g) (k # ks) w)) =
      cm_touching (collisionMatrix ?w1) \<union>
       (\<lambda>j. cm_key (bi (contacts ?w1 ! j)) (bj (contacts ?w1 ! j))) ` {j \<in> set ks. gap ?w1 (contacts ?w1 ! j) < 0}"
    using Cons.IH [OF in_range] by simp
  then show ?case
    unfolding same handle_contact_matrix [OF k] by auto
qed

lemma loop_stays_awake:
  assumes "\<forall>k\<in>set ks. k < length (contacts w)" "sleepState (body_of w x) = AWAKE"
  shows "sleepState (body_of (fold (handle_contact ext g) ks w) x) = AWAKE"
  using assms
proof (induction ks arbitrary: w)
  case Nil
  then show ?case by simp
next
  case (Cons k ks)
  let ?w1 = "handle_contact ext g k w"
  have k: "k < length (contacts w)" using Cons.prems by simp
  have sc: "scene ?w1 = scene w" by simp
  have in_range: "\<forall>j\<in>set ks. j < length (contacts ?w1)"
    using Cons.prems scene_length [OF sc] by simp
  have "sleepState (body_of ?w1 x) = AWAKE"
    using k Cons.prems(2) by (rule handle_contact_stays_awake)
  from Cons.IH [OF in_range this] show ?case by simp
qed

lemma loop_wakes:
  assumes "\<forall>k\<in>set ks. k < length (contacts w)"
    and "\<exists>k\<in>set ks. fires w k \<and> (x = bi (contacts w ! k) \<or> x = bj (contacts w ! k))"
  shows "sleepState (body_of (fold (handle_contact ext g) ks w) x) = AWAKE"
  using assms
proof (induction ks arbitrary: w)
  case Nil
  then show ?case by simp
next
  case (Cons k ks)
  let ?w1 = "handle_contact ext g k w"
  have k: "k < length (contacts w)" using Cons.prems by simp
  have sc: "scene ?w1 = scene w" by simp
  have in_range: "\<forall>j\<in>set ks. j < length (contacts ?w1)"
    using Cons.prems scene_length [OF sc] by simp
  show ?case
  proof (cases "fires w k \<and> (x = bi (contacts w ! k) \<or> x = bj (contacts w ! k))")
    case True
    then have "sleepState (body_of ?w1 x) = AWAKE"
      using handle_contact_wakes [OF k, of x ext g] by blast
    from loop_stays_awake [OF in_range this] show ?thesis by simp
  next
    case False
    with Cons.prems(2) obtain j where j: "j \<in> set ks" "fires w j"
        "x = bi (contacts w ! j) \<or> x = bj (contacts w ! j)" by auto
    then have jl: "j < length (contacts w)" using Cons.prems(1) by simp
    have "fires ?w1 j" using scene_fires [OF sc jl] j(2) by simp
    moreover have "x = bi (contacts ?w1 ! j) \<or> x = bj (contacts ?w1 ! j)"
      using scene_nth(1,2) [OF sc jl] j(3) by simp
    ultimately have "\<exists>j\<in>set ks. fires ?w1 j \<and> (x = bi (contacts ?w1 ! j) \<or> x = bj (contacts ?w1 ! j))"
      using j(1) by blast
    from Cons.IH [OF in_range this] show ?thesis by simp
  qed
qed

lemma cm_key_sym: "cm_key a b = cm_key b a"
  unfolding cm_key_def by (cases a b rule: linorder_cases) simp_all

lemma cm_get_sym: "cm_get m a b = cm_get m b a"
  unfolding cm_get_def by (subst cm_key_sym) (rule refl)

lemma cm_key_eq: "cm_key x y = cm_key a b \<longleftrightarrow> (x = a \<and> y = b) \<or> (x = b \<and> y = a)"
proof
  assume h: "cm_key x y = cm_key a b"
  show "(x = a \<and> y = b) \<or> (x = b \<and> y = a)"
  proof (cases "x < y")
    case True
    then have "cm_key a b = (y, x)" using h by (simp add: cm_key_def)
    then show ?thesis by (cases "a < b") (simp_all add: cm_key_def)
  next
    case False
    then have "cm_key a b = (x, y)" using h by (simp add: cm_key_def)
    then show ?thesis using False by (cases "a < b") (simp_all add: cm_key_def)
  qed
next
  assume "(x = a \<and> y = b) \<or> (x = b \<and> y = a)"
  then show "cm_key x y = cm_key a b"
  proof
    assume "x = a \<and> y = b"
    then show ?thesis by simp
  next
    assume "x = b \<and> y = a"
    then have "cm_key x y = cm_key b a" by simp
    then show ?thesis by (simp only: cm_key_sym [of b a])
  qed
qed

lemma rising_alt:
  "rising w a b k =
     (if cm_get (collisionMatrixPrevious w) a b then 0
      else (if gap w (contacts w ! k) < 0 \<and> bi (contacts w ! k) = a \<and> bj (contacts w ! k) = b then 1 else 0)
         + (if gap w (contacts w ! k) < 0 \<and> bi (contacts w ! k) = b \<and> bj (contacts w ! k) = a then 1 else 0))"
proof -
  let ?c = "contacts w ! k"
  let ?P = "bi ?c = a \<and> bj ?c = b" and ?Q = "bi ?c = b \<and> bj ?c = a"
  have comm: "(bj ?c = a \<and> bi ?c = b) = ?Q" by (rule conj_commute)
  show ?thesis
  proof (cases "gap w ?c < 0")
    case False
    then have g: "(gap w ?c < 0) = False" by simp
    show ?thesis unfolding rising_def fires_def g
      by (cases "cm_get (collisionMatrixPrevious w) a b") (simp_all split del: if_split)
  next
    case neg: True
    show ?thesis
    proof (cases "?P \<or> ?Q")
      case False
      then have pf: "?P = False" and qf: "?Q = False" by blast+
      show ?thesis unfolding rising_def comm pf qf by simp
    next
      case True
      have prev: "cm_get (collisionMatrixPrevious w) (bi ?c) (bj ?c) = cm_get (collisionMatrixPrevious w) a b"
        using True
      proof
        assume ?P
        then have "bi ?c = a" "bj ?c = b" by blast+
        then show ?thesis by (simp only:)
      next
        assume ?Q
        then have "bi ?c = b" "bj ?c = a" by blast+
        then show ?thesis by (simp only: cm_get_sym [of _ b a])
      qed
      have g: "(gap w ?c < 0) = True" using neg by simp
      show ?thesis
        unfolding rising_def fires_def comm prev g
        by (cases "cm_get (collisionMatrixPrevious w) a b") (simp_all split del: if_split)
    qed
  qed
qed

lemma sum_list_indicators:
  "sum_list (map (\<lambda>c. (if P c then 1 else 0) + (if Q c then 1 else 0)) xs)
     = length (filter P xs) + length (filter Q xs)"
  by (induction xs) simp_all

lemma sum_list_zero: "sum_list (map (\<lambda>c. 0::nat) xs) = 0"
  by (induction xs) simp_all

lemma sum_rising:
  "sum_list (map (rising w a b) [0..<length (contacts w)]) =
     (if cm_get (collisionMatrixPrevious w) a b then 0 else pen_count w a b + pen_count w b a)"
proof -
  let ?h = "\<lambda>c. (if cm_get (collisionMatrixPrevious w) a b then 0
      else (if gap w c < 0 \<and> bi c = a \<and> bj c = b then 1 else 0)
         + (if gap w c < 0 \<and> bi c = b \<and> bj c = a then 1 else (0::nat)))"
  have "map (rising w a b) [0..<length (contacts w)] = map (\<lambda>k. ?h (contacts w ! k)) [0..<length (contacts w)]"
    by (rule map_cong [OF refl]) (rule rising_alt)
  also have "\<dots> = map ?h (map (\<lambda>k. contacts w ! k) [0..<length (contacts w)])"
    by (simp only: map_map o_def)
  also have "\<dots> = map ?h (contacts w)" by (simp only: map_nth)
  finally have "sum_list (map (rising w a b) [0..<length (contacts w)]) = sum_list (map ?h (contacts w))"
    by (rule arg_cong)
  also have "\<dots> = (if cm_get (collisionMatrixPrevious w) a b then 0 else pen_count w a b + pen_count w b a)"
  proof (cases "cm_get (collisionMatrixPrevious w) a b")
    case True
    then show ?thesis by (simp add: sum_list_zero split del: if_split)
  next
    case False
    then show ?thesis
      by (simp only: if_False sum_list_indicators pen_count_def)
  qed
  finally show ?thesis .
qed

lemma ledger_prims [simp]:
  "ledger (update_body b f w) = ledger w"
  "ledger (addEquation q w) = ledger w"
  "ledger (removeAllEquations w) = ledger w"
  "ledger (update_subsystems ext w) = ledger w"
  "ledger (generate_contacts ext w) = ledger w"
  "ledger (pool_frictionEquations w) = ledger w"
  "ledger (solve ext dt w) = ledger w"
  "ledger (advance_clock dt w) = ledger w"
  "ledger (w\<lparr>body_of := h\<rparr>) = ledger w"
  by (simp_all add: ledger_def update_body_def addEquation_def removeAllEquations_def
      update_subsystems_def generate_contacts_def pool_frictionEquations_def solve_def
      advance_clock_def Let_def)

lemma ledger_dispatch [simp]:
  "ledger (dispatchEvent tg e w) = (fst (ledger w) @ [(tg, e)], snd (ledger w))"
  by (simp add: ledger_def dispatchEvent_def)

lemma ledger_tick [simp]:
  "ledger (collisionMatrixTick w) =
     (fst (ledger w), cm_reset (snd (snd (ledger w))), fst (snd (ledger w)))"
  by (simp add: ledger_def collisionMatrixTick_def Let_def)

lemma ledger_addGravity [simp]: "ledger (addGravity ext g w) = ledger w"
  unfolding addGravity_def by (rule for_bodies_keeps) simp

lemma ledger_callables [simp]:
  "ledger (for_bodies (\<lambda>b s. s\<lparr>body_of := h b (body_of s)\<rparr>) w) = ledger w"
  by (rule for_bodies_keeps) simp

lemma ledger_update_loop [simp]:
  "ledger (for_bodies (\<lambda>b s. update_body b (h s) s) w) = ledger w"
  by (rule for_bodies_keeps) simp

lemma ledger_gather [simp]: "ledger (gather_constraints ext w) = ledger w"
  unfolding gather_constraints_def add_constraint_equations_def
  by (rule fold_keeps, rule fold_keeps) simp

lemma ledger_before_contacts:
  "ledger (before_contacts ext w) = (dispatched w, cm_reset (collisionMatrixPrevious w), collisionMatrix w)"
  unfolding before_contacts_def by (simp, simp add: ledger_def)

lemma ledger_solve_phase:
  "ledger (solve_phase ext dt w) =
     (dispatched w @ [(WorldTarget, PreStepEvent)], collisionMatrix w, collisionMatrixPrevious w)"
  unfolding solve_phase_def by (simp, simp add: ledger_def)

lemma ledger_integrate [simp]: "ledger (integrate ext dt w) = ledger w"
  unfolding integrate_def by simp

lemma ledger_sleep_update [simp]: "ledger (sleep_update ext w) = ledger w"
  unfolding sleep_update_def by simp

lemma ledger_finish_step:
  "ledger (finish_step ext dt w) =
     (dispatched w @ [(WorldTarget, PostStepEvent)], collisionMatrix w, collisionMatrixPrevious w)"
  unfolding finish_step_def by (simp, simp add: ledger_def)

lemma before_contacts_ledger:
  "dispatched (before_contacts ext w) = dispatched w"
  "cm_touching (collisionMatrix (before_contacts ext w)) = {}"
  "collisionMatrixPrevious (before_contacts ext w) = collisionMatrix w"
  using ledger_before_contacts [of ext w] by (simp_all add: ledger_def cm_reset_def)

lemma contact_phase_events:
  "\<exists>E. dispatched (makeContactConstraints ext g (before_contacts ext w)) = dispatched w @ E
       \<and> collide_count a b E =
           (if cm_get (collisionMatrix w) a b then 0
            else pen_count (before_contacts ext w) a b + pen_count (before_contacts ext w) b a)"
proof -
  let ?s = "before_contacts ext w"
  have "\<forall>k\<in>set [0..<length (contacts ?s)]. k < length (contacts ?s)" by simp
  from loop_dispatched [OF this, of ext g a b] obtain E where
    E: "dispatched (fold (handle_contact ext g) [0..<length (contacts ?s)] ?s) = dispatched ?s @ E"
       "collide_count a b E = sum_list (map (rising ?s a b) [0..<length (contacts ?s)])" by blast
  have "collide_count a b E =
      (if cm_get (collisionMatrix w) a b then 0 else pen_count ?s a b + pen_count ?s b a)"
    using E(2) by (simp only: sum_rising before_contacts_ledger)
  moreover have "dispatched (makeContactConstraints ext g ?s) = dispatched w @ E"
    using E(1) by (simp add: makeContactConstraints_def before_contacts_ledger)
  ultimately show ?thesis by blast
qed

lemma contact_phase_matrix:
  "cm_touching (collisionMatrix (makeContactConstraints ext g (before_contacts ext w))) =
     (\<lambda>k. cm_key (bi (contacts (before_contacts ext w) ! k)) (bj (contacts (before_contacts ext w) ! k)))
       ` {k \<in> set [0..<length (contacts (before_contacts ext w))].
            gap (before_contacts ext w) (contacts (before_contacts ext w) ! k) < 0}"
proof -
  let ?s = "before_contacts ext w"
  have "\<forall>k\<in>set [0..<length (contacts ?s)]. k < length (contacts ?s)" by simp
  from loop_matrix [OF this, of ext g] show ?thesis
    by (simp add: makeContactConstraints_def before_contacts_ledger)
qed

lemma after_contacts_ledger:
  "dispatched (finish_step ext dt (integrate ext dt (solve_phase ext dt w))) =
     dispatched w @ [(WorldTarget, PreStepEvent), (WorldTarget, PostStepEvent)]"
  "collisionMatrix (finish_step ext dt (integrate ext dt (solve_phase ext dt w))) = collisionMatrix w"
proof -
  have "ledger (integrate ext dt (solve_phase ext dt w)) = ledger (solve_phase ext dt w)" by simp
  then have i: "dispatched (integrate ext dt (solve_phase ext dt w)) = dispatched w @ [(WorldTarget, PreStepEvent)]"
      "collisionMatrix (integrate ext dt (solve_phase ext dt w)) = collisionMatrix w"
    using ledger_solve_phase [of ext dt w] by (simp_all add: ledger_def)
  show "dispatched (finish_step ext dt (integrate ext dt (solve_phase ext dt w))) =
     dispatched w @ [(WorldTarget, PreStepEvent), (WorldTarget, PostStepEvent)]"
    "collisionMatrix (finish_step ext dt (integrate ext dt (solve_phase ext dt w))) = collisionMatrix w"
    using ledger_finish_step [of ext dt "integrate ext dt (solve_phase ext dt w)"] i
    by (simp_all add: ledger_def)
qed

lemma step_collide_count:
  "collide_count a b (new_events w (step ext d w)) =
     (if cm_get (collisionMatrix w) a b then 0
      else pen_count (before_contacts ext w) a b + pen_count (before_contacts ext w) b a)"
proof -
  from contact_phase_events [of ext "Vec3_norm (gravity w)" w a b] obtain E where
    E: "dispatched (makeContactConstraints ext (Vec3_norm (gravity w)) (before_contacts ext w)) = dispatched w @ E"
       "collide_count a b E =
           (if cm_get (collisionMatrix w) a b then 0
            else pen_count (before_contacts ext w) a b + pen_count (before_contacts ext w) b a)" by blast
  have "dispatched (step ext d w) = dispatched w @ (E @ [(WorldTarget, PreStepEvent), (WorldTarget, PostStepEvent)])"
    unfolding step_def after_contacts_ledger E(1) by simp
  then have "new_events w (step ext d w) = E @ [(WorldTarget, PreStepEvent), (WorldTarget, PostStepEvent)]"
    by (simp add: new_events_def)
  then show ?thesis
    using E(2) by (simp add: collide_count_append collide_count_world collide_count_Nil)
qed

lemma pen_count_positive:
  "0 < pen_count s a b + pen_count s b a \<longleftrightarrow>
     (\<exists>k < length (contacts s). gap s (contacts s ! k) < 0
        \<and> cm_key (bi (contacts s ! k)) (bj (contacts s ! k)) = cm_key a b)"
proof -
  have "0 < pen_count s a b + pen_count s b a \<longleftrightarrow>
      (\<exists>c \<in> set (contacts s). gap s c < 0 \<and> ((bi c = a \<and> bj c = b) \<or> (bi c = b \<and> bj c = a)))"
    unfolding pen_count_def
    by (simp only: add_gr_0 length_greater_0_conv filter_empty_conv) blast
  also have "\<dots> \<longleftrightarrow> (\<exists>k < length (contacts s). gap s (contacts s ! k) < 0
        \<and> ((bi (contacts s ! k) = a \<and> bj (contacts s ! k) = b) \<or> (bi (contacts s ! k) = b \<and> bj (contacts s ! k) = a)))"
    by (simp only: Bex_def in_set_conv_nth) blast
  finally show ?thesis by (simp only: cm_key_eq)
qed

lemma step_records:
  "cm_get (collisionMatrix (step ext d w)) a b \<longleftrightarrow>
     0 < pen_count (before_contacts ext w) a b + pen_count (before_contacts ext w) b a"
proof -
  let ?s = "before_contacts ext w"
  let ?f = "\<lambda>k. cm_key (bi (contacts ?s ! k)) (bj (contacts ?s ! k))"
  have "collisionMatrix (step ext d w) =
      collisionMatrix (makeContactConstraints ext (Vec3_norm (gravity w)) ?s)"
    unfolding step_def by (rule after_contacts_ledger)
  then have "cm_get (collisionMatrix (step ext d w)) a b \<longleftrightarrow>
      cm_key a b \<in> ?f ` {k \<in> set [0..<length (contacts ?s)]. gap ?s (contacts ?s ! k) < 0}"
    by (simp only: cm_get_def contact_phase_matrix)
  also have "\<dots> \<longleftrightarrow> (\<exists>k < length (contacts ?s). gap ?s (contacts ?s ! k) < 0 \<and> ?f k = cm_key a b)"
    by (auto simp: image_iff)
  also have "\<dots> \<longleftrightarrow> 0 < pen_count ?s a b + pen_count ?s b a"
    by (rule pen_count_positive [symmetric])
  finally show ?thesis .
qed

lemma step_wakes:
  assumes "\<not> cm_get (collisionMatrix w) a b"
    and "0 < pen_count (before_contacts ext w) a b + pen_count (before_contacts ext w) b a"
  shows "sleepState (body_of (makeContactConstraints ext g (before_contacts ext w)) a) = AWAKE"
    and "sleepState (body_of (makeContactConstraints ext g (before_contacts ext w)) b) = AWAKE"
proof -
  let ?s = "before_contacts ext w"
  from assms(2) obtain k where k: "k < length (contacts ?s)" "gap ?s (contacts ?s ! k) < 0"
      "cm_key (bi (contacts ?s ! k)) (bj (contacts ?s ! k)) = cm_key a b"
    unfolding pen_count_positive by blast
  have "\<not> cm_get (collisionMatrixPrevious ?s) (bi (contacts ?s ! k)) (bj (contacts ?s ! k))"
    using assms(1) k(3) by (simp add: cm_get_def before_contacts_ledger)
  with k(2) have f: "fires ?s k" by (simp add: fires_def)
  have ab: "(bi (contacts ?s ! k) = a \<and> bj (contacts ?s ! k) = b) \<or> (bi (contacts ?s ! k) = b \<and> bj (contacts ?s ! k) = a)"
    using k(3) by (simp only: cm_key_eq)
  have range: "\<forall>j\<in>set [0..<length (contacts ?s)]. j < length (contacts ?s)" by simp
  have "\<exists>j\<in>set [0..<length (contacts ?s)]. fires ?s j \<and> (a = bi (contacts ?s ! j) \<or> a = bj (contacts ?s ! j))"
    using k(1) f ab by (intro bexI [of _ k]) auto
  from loop_wakes [OF range this] show "sleepState (body_of (makeContactConstraints ext g ?s) a) = AWAKE"
    by (simp add: makeContactConstraints_def)
  have "\<exists>j\<in>set [0..<length (contacts ?s)]. fires ?s j \<and> (b = bi (contacts ?s ! j) \<or> b = bj (contacts ?s ! j))"
    using k(1) f ab by (intro bexI [of _ k]) auto
  from loop_wakes [OF range this] show "sleepState (body_of (makeContactConstraints ext g ?s) b) = AWAKE"
    by (simp add: makeContactConstraints_def)
qed

text \<open>
  Claim C5, as the code has it. \<open>pen_count s a b\<close> counts the penetrating contacts that
  the contact list of a step holds for the bodies \<open>a\<close> and \<open>b\<close> in this order. In a
  step, body \<open>a\<close> gets one collide event carrying \<open>b\<close> for every penetrating contact
  between the two, in either order, if the pair is not marked in the collision matrix
  that the step starts from, and none if it is; after the step the pair is marked exactly
  if it had a penetrating contact. Hence for two consecutive steps: no collide event in
  the second if the pair was penetrating in the first, and otherwise one per penetrating
  contact of the second. A step that dispatches them also wakes both bodies. So sustained
  contact brings no further events, but the first step of a contact brings as many
  events per body as the pair has penetrating contacts, not exactly one.
\<close>

theorem collide_events_on_rising_edge:
  assumes "s1 = before_contacts ext w"
    and "w1 = step ext d1 w"
    and "s2 = before_contacts ext w1"
    and "w2 = step ext d2 w1"
  shows "collide_count a b (new_events w w1) =
           (if cm_get (collisionMatrix w) a b then 0 else pen_count s1 a b + pen_count s1 b a)
       \<and> (cm_get (collisionMatrix w1) a b \<longleftrightarrow> 0 < pen_count s1 a b + pen_count s1 b a)
       \<and> collide_count a b (new_events w1 w2) =
           (if 0 < pen_count s1 a b + pen_count s1 b a then 0 else pen_count s2 a b + pen_count s2 b a)
       \<and> (\<not> cm_get (collisionMatrix w) a b \<and> 0 < pen_count s1 a b + pen_count s1 b a \<longrightarrow>
            sleepState (body_of (makeContactConstraints ext (Vec3_norm (gravity w)) s1) a) = AWAKE
            \<and> sleepState (body_of (makeContactConstraints ext (Vec3_norm (gravity w)) s1) b) = AWAKE)"
proof -
  have one: "collide_count a b (new_events w w1) =
           (if cm_get (collisionMatrix w) a b then 0 else pen_count s1 a b + pen_count s1 b a)"
    unfolding assms(1,2) by (rule step_collide_count)
  have rec: "cm_get (collisionMatrix w1) a b \<longleftrightarrow> 0 < pen_count s1 a b + pen_count s1 b a"
    unfolding assms(1,2) by (rule step_records)
  have "collide_count a b (new_events w1 w2) =
           (if cm_get (collisionMatrix w1) a b then 0 else pen_count s2 a b + pen_count s2 b a)"
    unfolding assms(3,4) by (rule step_collide_count)
  then have two: "collide_count a b (new_events w1 w2) =
           (if 0 < pen_count s1 a b + pen_count s1 b a then 0 else pen_count s2 a b + pen_count s2 b a)"
    unfolding rec .
  have wake: "\<not> cm_get (collisionMatrix w) a b \<and> 0 < pen_count s1 a b + pen_count s1 b a \<longrightarrow>
            sleepState (body_of (makeContactConstraints ext (Vec3_norm (gravity w)) s1) a) = AWAKE
            \<and> sleepState (body_of (makeContactConstraints ext (Vec3_norm (gravity w)) s1) b) = AWAKE"
  proof (intro impI)
    assume h: "\<not> cm_get (collisionMatrix w) a b \<and> 0 < pen_count s1 a b + pen_count s1 b a"
    then have h1: "\<not> cm_get (collisionMatrix w) a b"
      and h2: "0 < pen_count (before_contacts ext w) a b + pen_count (before_contacts ext w) b a"
      unfolding assms(1) by simp_all
    from step_wakes [OF h1 h2, of "Vec3_norm (gravity w)"]
    show "sleepState (body_of (makeContactConstraints ext (Vec3_norm (gravity w)) s1) a) = AWAKE
            \<and> sleepState (body_of (makeContactConstraints ext (Vec3_norm (gravity w)) s1) b) = AWAKE"
      unfolding assms(1) by simp
  qed
  from one rec two wake show ?thesis by blast
qed

lemma World_pair_two_points:
  "\<not> cm_get (collisionMatrix World_pair) 2 3"
  "dispatched World_pair = []"
  "pen_count (before_contacts ext_two_points World_pair) 2 3 = 2"
  "pen_count (before_contacts ext_two_points World_pair) 3 2 = 0"
  by (simp_all add: pen_count_def gap_def before_contacts_def addGravity_def for_bodies_def
      update_subsystems_def collisionMatrixTick_def generate_contacts_def pool_frictionEquations_def
      update_body_def gravity_body_def cm_get_def cm_reset_def
      ext_two_points_def ext0_def World_pair_def World0_def World_new_def Body_new_def
      contact23_def Vec3_new_def ArrayCollisionMatrix_new_def Let_def)

text \<open>
  Claim C5 as stated fails: in a fresh world, the contact generator reports two
  penetrating contact points for the pair of bodies 2 and 3. In that one step, the
  first of the contact, body 2 gets two collide events carrying body 3.
\<close>

theorem collide_once_per_run_counterexample:
  "\<not> cm_get (collisionMatrix World_pair) 2 3
   \<and> pen_count (before_contacts ext_two_points World_pair) 2 3 = 2
   \<and> collide_count 2 3 (dispatched (step ext_two_points None World_pair)) = 2
   \<and> collide_count 2 3 (dispatched (step ext_two_points None World_pair)) \<noteq> 1"
proof -
  have "new_events World_pair (step ext_two_points None World_pair)
      = dispatched (step ext_two_points None World_pair)"
    by (simp add: new_events_def World_pair_two_points)
  then have "collide_count 2 3 (dispatched (step ext_two_points None World_pair)) = 2"
    using step_collide_count [of 2 3 World_pair ext_two_points None]
    by (simp add: World_pair_two_points)
  then show ?thesis by (simp add: World_pair_two_points)
qed

text \<open>
  Claim C5, amended form, at the same world: two events in the first step of the
  contact, none in the second, and body 2 awake.
\<close>

theorem collide_events_on_rising_edge_witness:
  "\<not> cm_get (collisionMatrix World_pair) 2 3
   \<and> 0 < pen_count (before_contacts ext_two_points World_pair) 2 3
         + pen_count (before_contacts ext_two_points World_pair) 3 2
   \<and> collide_count 2 3 (new_events World_pair (step ext_two_points None World_pair)) = 2
   \<and> cm_get (collisionMatrix (step ext_two_points None World_pair)) 2 3
   \<and> collide_count 2 3 (new_events (step ext_two_points None World_pair)
          (step ext_two_points None (step ext_two_points None World_pair))) = 0
   \<and> sleepState (body_of (makeContactConstraints ext_two_points (Vec3_norm (gravity World_pair))
          (before_contacts ext_two_points World_pair)) 2) = AWAKE"
  using collide_events_on_rising_edge [OF refl refl refl refl, of 2 3 World_pair ext_two_points None None]
  by (simp add: World_pair_two_points)

lemma friction_part_append: "friction_part (xs @ ys) = friction_part xs @ friction_part ys"
  by (induction xs rule: friction_part.induct) simp_all

lemma traits_cong:
  assumes "contacts w' = contacts w" "resolve_material w' = resolve_material w"
    "reducedMass_of w' = reducedMass_of w"
    "\<And>x. collisionResponse (body_of w' x) = collisionResponse (body_of w x)"
  shows "traits w' = traits w"
  using assms by (simp add: traits_def)

lemma traits_prims [simp]:
  "traits (dispatchEvent tg e w) = traits w"
  "traits (addEquation q w) = traits w"
  "traits (wakeUp b w) = traits w"
  "traits (mark_touching k w) = traits w"
  "traits (w\<lparr>frictionEquationPool := fp, frictionEquations := fq\<rparr>) = traits w"
  by (rule traits_cong;
      simp add: fun_eq_iff resolve_material_def getContactMaterial_def reducedMass_of_def Let_def
        dispatchEvent_def addEquation_def wakeUp_def update_body_def mark_touching_def
        cong: option.case_cong)+

lemma traits_add_friction [simp]: "traits (add_friction ext g mu c w) = traits w"
  unfolding add_friction_def Let_def by simp

lemma traits_set_contact:
  assumes "bi c = bi (contacts w ! k)" "bj c = bj (contacts w ! k)"
  shows "traits (w\<lparr>contacts := (contacts w)[k := c]\<rparr>) = traits w"
proof -
  let ?f = "\<lambda>c. (collisionResponse (body_of w (bi c)) \<and> collisionResponse (body_of w (bj c)),
                         friction (resolve_material w c), reducedMass_of w c)"
  have "?f c = ?f (contacts w ! k)"
    using assms by (simp add: resolve_material_def reducedMass_of_def)
  then have "map ?f ((contacts w)[k := c]) = map ?f (contacts w)"
    by (rule map_update_same)
  moreover have "resolve_material (w\<lparr>contacts := (contacts w)[k := c]\<rparr>) = resolve_material w"
    by (simp add: fun_eq_iff resolve_material_def getContactMaterial_def Let_def
        cong: option.case_cong)
  moreover have "reducedMass_of (w\<lparr>contacts := (contacts w)[k := c]\<rparr>) = reducedMass_of w"
    by (simp add: fun_eq_iff reducedMass_of_def)
  ultimately show ?thesis by (simp add: traits_def)
qed

lemma traits_respond [simp]: "traits (respond ext g k w) = traits w"
  unfolding respond_def Let_def by (simp add: traits_set_contact)

lemma traits_first_contact [simp]: "traits (first_contact k w) = traits w"
  unfolding first_contact_def Let_def by simp

lemma traits_handle_contact [simp]: "traits (handle_contact ext g k w) = traits w"
  unfolding handle_contact_def Let_def by simp

lemma loop_traits: "traits (fold (handle_contact ext g) ks w) = traits w"
  by (rule fold_keeps) simp

lemma traits_nth:
  assumes "traits w' = traits w" "scene w' = scene w" "k < length (contacts w)"
  shows "(collisionResponse (body_of w' (bi (contacts w' ! k))) \<and> collisionResponse (body_of w' (bj (contacts w' ! k))))
       = (collisionResponse (body_of w (bi (contacts w ! k))) \<and> collisionResponse (body_of w (bj (contacts w ! k))))"
    and "friction (resolve_material w' (contacts w' ! k)) = friction (resolve_material w (contacts w ! k))"
    and "reducedMass_of w' (contacts w' ! k) = reducedMass_of w (contacts w ! k)"
proof -
  let ?f = "\<lambda>w c. (collisionResponse (body_of w (bi c)) \<and> collisionResponse (body_of w (bj c)),
                         friction (resolve_material w c), reducedMass_of w c)"
  have len: "length (contacts w') = length (contacts w)" by (rule scene_length [OF assms(2)])
  from assms(1) have "map (?f w') (contacts w') ! k = map (?f w) (contacts w) ! k"
    by (simp add: traits_def)
  with assms(3) len have e: "?f w' (contacts w' ! k) = ?f w (contacts w ! k)" by simp
  from e show "(collisionResponse (body_of w' (bi (contacts w' ! k))) \<and> collisionResponse (body_of w' (bj (contacts w' ! k))))
       = (collisionResponse (body_of w (bi (contacts w ! k))) \<and> collisionResponse (body_of w (bj (contacts w ! k))))"
    by simp
  from e show "friction (resolve_material w' (contacts w' ! k)) = friction (resolve_material w (contacts w ! k))"
    by simp
  from e show "reducedMass_of w' (contacts w' ! k) = reducedMass_of w (contacts w ! k)"
    by simp
qed

lemma block_at_cong:
  assumes "traits w' = traits w" "scene w' = scene w" "k < length (contacts w)"
  shows "block_at g w' k blk = block_at g w k blk"
proof -
  note t = traits_nth [OF assms] and s = scene_nth [OF assms(2,3)]
  have r: "(gap w' (contacts w' ! k) < 0
        \<and> collisionResponse (body_of w' (bi (contacts w' ! k)))
        \<and> collisionResponse (body_of w' (bj (contacts w' ! k))))
      = (gap w (contacts w ! k) < 0
        \<and> collisionResponse (body_of w (bi (contacts w ! k)))
        \<and> collisionResponse (body_of w (bj (contacts w ! k))))"
    by (simp only: s(3) t(1))
  show ?thesis unfolding block_at_def Let_def r t(2,3) by (simp only: s(1,2))
qed

text \<open>The equations of the pass over contact \<open>k\<close>.\<close>

lemma handle_contact_block:
  assumes k: "k < length (contacts w)"
  shows "\<exists>blk. solver_equations (handle_contact ext g k w) = solver_equations w @ blk
      \<and> frictionEquations (handle_contact ext g k w) = frictionEquations w @ friction_part blk
      \<and> block_at g w k blk"
proof -
  let ?c = "contacts w ! k"
  let ?mu = "friction (resolve_material w ?c)"
  let ?act = "gap w ?c < 0 \<and> collisionResponse (body_of w (bi ?c)) \<and> collisionResponse (body_of w (bj ?c))"
  let ?ce = "contacts (respond ext g k w) ! k"
  have ends: "bi ?ce = bi ?c" "bj ?ce = bj ?c"
    using scene_nth [OF scene_respond k] by simp_all
  show ?thesis
  proof (cases ?act)
    case True
    then have eqs: "solver_equations (handle_contact ext g k w) = solver_equations (respond ext g k w)"
        "frictionEquations (handle_contact ext g k w) = frictionEquations (respond ext g k w)"
      by (simp_all add: handle_contact_responding)
    show ?thesis
    proof (cases "0 < ?mu")
      case pos: True
      with respond_effect [OF k, of ext g] obtain f1 f2 where
        f: "solver_equations (respond ext g k w) = solver_equations w @ [ContactEq ?ce, FrictionEq f1, FrictionEq f2]"
           "frictionEquations (respond ext g k w) = frictionEquations w @ [f1, f2]"
           "minForce f1 = - (?mu * g * reducedMass_of w ?c)" "maxForce f1 = ?mu * g * reducedMass_of w ?c"
           "minForce f2 = - (?mu * g * reducedMass_of w ?c)" "maxForce f2 = ?mu * g * reducedMass_of w ?c"
        by blast
      have "block_at g w k [ContactEq ?ce, FrictionEq f1, FrictionEq f2]"
        unfolding block_at_def Let_def using True pos f(3-6) ends by simp
      moreover have "friction_part [ContactEq ?ce, FrictionEq f1, FrictionEq f2] = [f1, f2]" by simp
      ultimately show ?thesis using eqs f(1,2) by metis
    next
      case nonpos: False
      with respond_effect [OF k, of ext g] have
        f: "solver_equations (respond ext g k w) = solver_equations w @ [ContactEq ?ce]"
           "frictionEquations (respond ext g k w) = frictionEquations w"
        by blast+
      have "block_at g w k [ContactEq ?ce]"
        unfolding block_at_def Let_def using True nonpos ends by simp
      moreover have "frictionEquations w = frictionEquations w @ friction_part [ContactEq ?ce]" by simp
      ultimately show ?thesis using eqs f by metis
    qed
  next
    case False
    have same: "solver_equations (handle_contact ext g k w) = solver_equations w
        \<and> frictionEquations (handle_contact ext g k w) = frictionEquations w"
    proof (cases "gap w ?c < 0")
      case pen: True
      with False have nr: "\<not> (collisionResponse (body_of w (bi ?c)) \<and> collisionResponse (body_of w (bj ?c)))"
        by simp
      have "handle_contact ext g k w =
          (if is_new_contact k (mark_touching k w) then first_contact k (mark_touching k w)
           else mark_touching k w)"
        unfolding handle_contact_def Let_def using pen nr by (simp only: if_True if_False)
      then show ?thesis by (simp add: after_response_frame)
    next
      case far: False
      then have g: "(gap w ?c < 0) = False" by simp
      show ?thesis unfolding handle_contact_def g by (simp only: if_False simp_thms)
    qed
    have "block_at g w k []" unfolding block_at_def Let_def using False by auto
    with same show ?thesis by (intro exI [of _ "[]"]) simp
  qed
qed

lemma loop_blocks:
  assumes "n \<le> length (contacts w)"
  shows "\<exists>blocks. length blocks = n
     \<and> solver_equations (fold (handle_contact ext g) [0..<n] w) = solver_equations w @ concat blocks
     \<and> frictionEquations (fold (handle_contact ext g) [0..<n] w)
         = frictionEquations w @ concat (map friction_part blocks)
     \<and> (\<forall>k<n. block_at g w k (blocks ! k))"
  using assms
proof (induction n)
  case 0
  show ?case by (intro exI [of _ "[]"]) simp
next
  case (Suc n)
  let ?v = "fold (handle_contact ext g) [0..<n] w"
  from Suc obtain blocks where
    b: "length blocks = n"
       "solver_equations ?v = solver_equations w @ concat blocks"
       "frictionEquations ?v = frictionEquations w @ concat (map friction_part blocks)"
       "\<forall>k<n. block_at g w k (blocks ! k)" by auto
  have sc: "scene ?v = scene w" by (rule loop_scene)
  have tr: "traits ?v = traits w" by (rule loop_traits)
  have n: "n < length (contacts w)" using Suc.prems by simp
  then have nv: "n < length (contacts ?v)" using scene_length [OF sc] by simp
  from handle_contact_block [OF nv, of ext g] obtain blk where
    blk: "solver_equations (handle_contact ext g n ?v) = solver_equations ?v @ blk"
         "frictionEquations (handle_contact ext g n ?v) = frictionEquations ?v @ friction_part blk"
         "block_at g ?v n blk" by blast
  have ok: "block_at g w n blk" using blk(3) unfolding block_at_cong [OF tr sc n] .
  have step: "fold (handle_contact ext g) [0..<Suc n] w = handle_contact ext g n ?v" by simp
  have "length (blocks @ [blk]) = Suc n" using b(1) by simp
  moreover have "solver_equations (fold (handle_contact ext g) [0..<Suc n] w)
      = solver_equations w @ concat (blocks @ [blk])"
    unfolding step blk(1) b(2) by simp
  moreover have "frictionEquations (fold (handle_contact ext g) [0..<Suc n] w)
      = frictionEquations w @ concat (map friction_part (blocks @ [blk]))"
    unfolding step blk(2) b(3) by simp
  moreover have "\<forall>k<Suc n. block_at g w k ((blocks @ [blk]) ! k)"
  proof (intro allI impI)
    fix k assume "k < Suc n"
    then consider "k < n" | "k = n" by linarith
    then show "block_at g w k ((blocks @ [blk]) ! k)"
    proof cases
      case 1
      then show ?thesis using b(1,4) by (simp add: nth_append)
    next
      case 2
      then show ?thesis using b(1) ok by (simp add: nth_append)
    qed
  qed
  ultimately show ?case by blast
qed

lemma frictionEquations_before_contacts: "frictionEquations (before_contacts ext w) = []"
  unfolding before_contacts_def pool_frictionEquations_def by simp

lemma frictionEquations_after_contacts:
  "frictionEquations (finish_step ext dt (integrate ext dt (solve_phase ext dt w))) = frictionEquations w"
proof -
  have a: "\<And>f v. frictionEquations (for_bodies (\<lambda>b s. s\<lparr>body_of := f b (body_of s)\<rparr>) v) = frictionEquations v"
    by (rule for_bodies_keeps) simp
  have b: "\<And>h v. frictionEquations (for_bodies (\<lambda>b s. update_body b (h s) s) v) = frictionEquations v"
    by (rule for_bodies_keeps) (simp add: update_body_def)
  have c: "\<And>v. frictionEquations (gather_constraints ext v) = frictionEquations v"
    unfolding gather_constraints_def add_constraint_equations_def
    by (rule fold_keeps, rule fold_keeps) (simp add: addEquation_def)
  have s: "frictionEquations (solve_phase ext dt w) = frictionEquations w"
    unfolding solve_phase_def
    by (simp add: a b c dispatchEvent_def removeAllEquations_def solve_def)
  have i: "\<And>v. frictionEquations (integrate ext dt v) = frictionEquations v"
    unfolding integrate_def by (rule b)
  have f: "\<And>v. frictionEquations (finish_step ext dt v) = frictionEquations v"
    unfolding finish_step_def sleep_update_def
    by (simp add: a b dispatchEvent_def advance_clock_def)
  show ?thesis by (simp only: f i s)
qed

text \<open>The equations of one call of step: what the loop over the contacts gives to the solver,
  and the friction equations that the world holds when step returns.\<close>

lemma step_blocks:
  "\<exists>blocks. length blocks = length (contacts (before_contacts ext w))
     \<and> solver_equations (makeContactConstraints ext g (before_contacts ext w))
         = solver_equations (before_contacts ext w) @ concat blocks
     \<and> frictionEquations (finish_step ext dt (integrate ext dt (solve_phase ext dt
           (makeContactConstraints ext g (before_contacts ext w)))))
         = concat (map friction_part blocks)
     \<and> (\<forall>k<length (contacts (before_contacts ext w)). block_at g (before_contacts ext w) k (blocks ! k))"
proof -
  let ?s = "before_contacts ext w"
  from loop_blocks [OF order_refl, of ?s ext g] obtain blocks where
    b: "length blocks = length (contacts ?s)"
       "solver_equations (fold (handle_contact ext g) [0..<length (contacts ?s)] ?s) = solver_equations ?s @ concat blocks"
       "frictionEquations (fold (handle_contact ext g) [0..<length (contacts ?s)] ?s)
         = frictionEquations ?s @ concat (map friction_part blocks)"
       "\<forall>k<length (contacts ?s). block_at g ?s k (blocks ! k)" by blast
  have "frictionEquations (finish_step ext dt (integrate ext dt (solve_phase ext dt
           (makeContactConstraints ext g ?s)))) = concat (map friction_part blocks)"
    unfolding frictionEquations_after_contacts makeContactConstraints_def b(3)
    by (simp add: frictionEquations_before_contacts)
  with b(1,2,4) show ?thesis unfolding makeContactConstraints_def by blast
qed

lemma reducedMass_of_alt:
  "reducedMass_of s c =
     (if invMass (body_of s (bi c)) + invMass (body_of s (bj c)) > 0
      then 1 / (invMass (body_of s (bi c)) + invMass (body_of s (bj c)))
      else invMass (body_of s (bi c)) + invMass (body_of s (bj c)))"
  by (simp add: reducedMass_of_def Let_def)

lemma World_pair_one_point:
  "contacts (before_contacts ext_one_point World_pair) = [contact23]"
  "solver_equations (before_contacts ext_one_point World_pair) = []"
  "bi contact23 = 2" "bj contact23 = 3"
  "gap (before_contacts ext_one_point World_pair) contact23 = - 1"
  "collisionResponse (body_of (before_contacts ext_one_point World_pair) 2)"
  "collisionResponse (body_of (before_contacts ext_one_point World_pair) 3)"
  "invMass (body_of (before_contacts ext_one_point World_pair) 2) = 1"
  "invMass (body_of (before_contacts ext_one_point World_pair) 3) = 1"
  "friction (resolve_material (before_contacts ext_one_point World_pair) contact23) = 3 / 10"
  "Vec3_norm (gravity World_pair) = 2"
  by (simp_all add: gap_def before_contacts_def addGravity_def for_bodies_def
      update_subsystems_def collisionMatrixTick_def generate_contacts_def pool_frictionEquations_def
      update_body_def gravity_body_def resolve_material_def getContactMaterial_def
      ContactMaterial_new_def Vec3_norm_def
      ext_one_point_def ext0_def World_pair_def World0_def World_new_def Body_new_def
      contact23_def Vec3_new_def Let_def)

lemma World_odd_one_point:
  "contacts (before_contacts ext_one_point World_odd) = [contact23]"
  "gap (before_contacts ext_one_point World_odd) contact23 = - 1"
  "collisionResponse (body_of (before_contacts ext_one_point World_odd) 2)"
  "collisionResponse (body_of (before_contacts ext_one_point World_odd) 3)"
  "invMass (body_of (before_contacts ext_one_point World_odd) 2) = - 1"
  "invMass (body_of (before_contacts ext_one_point World_odd) 3) = 1 / 2"
  "friction (resolve_material (before_contacts ext_one_point World_odd) contact23) = 3 / 10"
  "Vec3_norm (gravity World_odd) = 2"
  by (simp_all add: gap_def before_contacts_def addGravity_def for_bodies_def
      update_subsystems_def collisionMatrixTick_def generate_contacts_def pool_frictionEquations_def
      update_body_def gravity_body_def resolve_material_def getContactMaterial_def
      ContactMaterial_new_def Vec3_norm_def
      ext_one_point_def ext0_def World_odd_def World_pair_def World0_def World_new_def Body_new_def
      contact23_def Vec3_new_def Let_def)

text \<open>A step whose contact list holds one contact, penetrating, between two responding
  bodies and with positive friction.\<close>

lemma step_one_contact:
  assumes "contacts (before_contacts ext w) = [c]"
    and "gap (before_contacts ext w) c < 0"
    and "collisionResponse (body_of (before_contacts ext w) (bi c))"
    and "collisionResponse (body_of (before_contacts ext w) (bj c))"
    and "0 < friction (resolve_material (before_contacts ext w) c)"
  shows "\<exists>f1 f2. frictionEquations (step ext dt w) = [f1, f2]
      \<and> minForce f1 = - (friction (resolve_material (before_contacts ext w) c) * Vec3_norm (gravity w)
                           * reducedMass_of (before_contacts ext w) c)
      \<and> maxForce f1 = friction (resolve_material (before_contacts ext w) c) * Vec3_norm (gravity w)
                           * reducedMass_of (before_contacts ext w) c"
proof -
  let ?s = "before_contacts ext w"
  from step_blocks [of ext w "Vec3_norm (gravity w)" "resolve_dt w dt"] obtain blocks where
    b: "length blocks = length (contacts ?s)"
       "frictionEquations (step ext dt w) = concat (map friction_part blocks)"
       "\<forall>k<length (contacts ?s). block_at (Vec3_norm (gravity w)) ?s k (blocks ! k)"
    unfolding step_def by blast
  from b(1) assms(1) have one: "blocks = [blocks ! 0]"
    by (cases blocks) simp_all
  from b(3) assms(1) have "block_at (Vec3_norm (gravity w)) ?s 0 (blocks ! 0)" by simp
  with assms obtain ce f1 f2 where
    f: "blocks ! 0 = [ContactEq ce, FrictionEq f1, FrictionEq f2]"
       "minForce f1 = - (friction (resolve_material ?s c) * Vec3_norm (gravity w) * reducedMass_of ?s c)"
       "maxForce f1 = friction (resolve_material ?s c) * Vec3_norm (gravity w) * reducedMass_of ?s c"
    unfolding block_at_def Let_def by auto
  have "concat (map friction_part blocks) = friction_part (blocks ! 0)"
    by (subst one) simp
  then have "frictionEquations (step ext dt w) = [f1, f2]" using b(2) f(1) by simp
  with f(2,3) show ?thesis by blast
qed

text \<open>
  Claim C3, as the code has it. \<open>s\<close> is the state in which step enters the loop over the
  contacts, \<open>m\<close> the state in which it leaves the loop and goes on to the solver. The
  equations that the loop gives to the solver come in one block for each contact, in the
  order of the contact list, and the friction equations that the world holds after the
  step are the friction equations of these blocks. The block of a penetrating contact
  between two responding bodies holds the contact equation and, if the friction \<open>mu\<close> of
  its contact material is positive, exactly two friction equations with the bounds
  \<open>-(mu * |gravity| * reducedMass)\<close> and \<open>mu * |gravity| * reducedMass\<close>; if \<open>mu\<close> is not
  positive, it holds the contact equation alone. The block of every other contact is
  empty. The reduced mass is the inverse of the sum of the two inverse masses if the sum
  is positive, and the sum itself otherwise, which is 0 when no inverse mass is negative.
\<close>

theorem step_friction_equations:
  assumes "s = before_contacts ext w"
    and "m = makeContactConstraints ext (Vec3_norm (gravity w)) s"
    and "active = (\<lambda>c. gap s c < 0 \<and> collisionResponse (body_of s (bi c))
                        \<and> collisionResponse (body_of s (bj c)))"
    and "mu = (\<lambda>c. friction (resolve_material s c))"
    and "reducedMass = (\<lambda>c. if invMass (body_of s (bi c)) + invMass (body_of s (bj c)) > 0
                            then 1 / (invMass (body_of s (bi c)) + invMass (body_of s (bj c)))
                            else invMass (body_of s (bi c)) + invMass (body_of s (bj c)))"
    and "bound = (\<lambda>c. mu c * Vec3_norm (gravity w) * reducedMass c)"
  shows "step ext dt w = finish_step ext (resolve_dt w dt) (integrate ext (resolve_dt w dt)
                           (solve_phase ext (resolve_dt w dt) m))
     \<and> (\<exists>blocks. length blocks = length (contacts s)
          \<and> solver_equations m = solver_equations s @ concat blocks
          \<and> frictionEquations (step ext dt w) = concat (map friction_part blocks)
          \<and> (\<forall>k<length (contacts s).
                (active (contacts s ! k) \<and> 0 < mu (contacts s ! k) \<longrightarrow>
                   (\<exists>ce f1 f2. blocks ! k = [ContactEq ce, FrictionEq f1, FrictionEq f2]
                      \<and> minForce f1 = - bound (contacts s ! k) \<and> maxForce f1 = bound (contacts s ! k)
                      \<and> minForce f2 = - bound (contacts s ! k) \<and> maxForce f2 = bound (contacts s ! k)))
              \<and> (active (contacts s ! k) \<and> mu (contacts s ! k) \<le> 0 \<longrightarrow>
                   (\<exists>ce. blocks ! k = [ContactEq ce]))
              \<and> (\<not> active (contacts s ! k) \<longrightarrow> blocks ! k = [])))
     \<and> (\<forall>c. 0 \<le> invMass (body_of s (bi c)) \<and> 0 \<le> invMass (body_of s (bj c)) \<longrightarrow>
            reducedMass c = (if invMass (body_of s (bi c)) + invMass (body_of s (bj c)) > 0
                             then 1 / (invMass (body_of s (bi c)) + invMass (body_of s (bj c)))
                             else 0))"
proof (intro conjI)
  show "step ext dt w = finish_step ext (resolve_dt w dt) (integrate ext (resolve_dt w dt)
                           (solve_phase ext (resolve_dt w dt) m))"
    unfolding step_def assms(1,2) by (rule refl)
next
  from step_blocks [of ext w "Vec3_norm (gravity w)" "resolve_dt w dt"] obtain blocks where
    b: "length blocks = length (contacts s)"
       "solver_equations m = solver_equations s @ concat blocks"
       "frictionEquations (step ext dt w) = concat (map friction_part blocks)"
       "\<forall>k<length (contacts s). block_at (Vec3_norm (gravity w)) s k (blocks ! k)"
    unfolding step_def assms(1,2) by blast
  have rm: "reducedMass = reducedMass_of s"
    unfolding assms(5) by (simp add: fun_eq_iff reducedMass_of_alt)
  have "\<forall>k<length (contacts s).
                (active (contacts s ! k) \<and> 0 < mu (contacts s ! k) \<longrightarrow>
                   (\<exists>ce f1 f2. blocks ! k = [ContactEq ce, FrictionEq f1, FrictionEq f2]
                      \<and> minForce f1 = - bound (contacts s ! k) \<and> maxForce f1 = bound (contacts s ! k)
                      \<and> minForce f2 = - bound (contacts s ! k) \<and> maxForce f2 = bound (contacts s ! k)))
              \<and> (active (contacts s ! k) \<and> mu (contacts s ! k) \<le> 0 \<longrightarrow>
                   (\<exists>ce. blocks ! k = [ContactEq ce]))
              \<and> (\<not> active (contacts s ! k) \<longrightarrow> blocks ! k = [])"
  proof (intro allI impI)
    fix k assume "k < length (contacts s)"
    with b(4) have "block_at (Vec3_norm (gravity w)) s k (blocks ! k)" by simp
    then show "(active (contacts s ! k) \<and> 0 < mu (contacts s ! k) \<longrightarrow>
                   (\<exists>ce f1 f2. blocks ! k = [ContactEq ce, FrictionEq f1, FrictionEq f2]
                      \<and> minForce f1 = - bound (contacts s ! k) \<and> maxForce f1 = bound (contacts s ! k)
                      \<and> minForce f2 = - bound (contacts s ! k) \<and> maxForce f2 = bound (contacts s ! k)))
              \<and> (active (contacts s ! k) \<and> mu (contacts s ! k) \<le> 0 \<longrightarrow>
                   (\<exists>ce. blocks ! k = [ContactEq ce]))
              \<and> (\<not> active (contacts s ! k) \<longrightarrow> blocks ! k = [])"
      unfolding block_at_def Let_def assms(6) rm assms(3,4) by blast
  qed
  with b(1,2,3) show "\<exists>blocks. length blocks = length (contacts s)
          \<and> solver_equations m = solver_equations s @ concat blocks
          \<and> frictionEquations (step ext dt w) = concat (map friction_part blocks)
          \<and> (\<forall>k<length (contacts s).
                (active (contacts s ! k) \<and> 0 < mu (contacts s ! k) \<longrightarrow>
                   (\<exists>ce f1 f2. blocks ! k = [ContactEq ce, FrictionEq f1, FrictionEq f2]
                      \<and> minForce f1 = - bound (contacts s ! k) \<and> maxForce f1 = bound (contacts s ! k)
                      \<and> minForce f2 = - bound (contacts s ! k) \<and> maxForce f2 = bound (contacts s ! k)))
              \<and> (active (contacts s ! k) \<and> mu (contacts s ! k) \<le> 0 \<longrightarrow>
                   (\<exists>ce. blocks ! k = [ContactEq ce]))
              \<and> (\<not> active (contacts s ! k) \<longrightarrow> blocks ! k = []))"
    by blast
next
  show "\<forall>c. 0 \<le> invMass (body_of s (bi c)) \<and> 0 \<le> invMass (body_of s (bj c)) \<longrightarrow>
            reducedMass c = (if invMass (body_of s (bi c)) + invMass (body_of s (bj c)) > 0
                             then 1 / (invMass (body_of s (bi c)) + invMass (body_of s (bj c)))
                             else 0)"
    unfolding assms(5) by auto
qed

text \<open>
  Claim C3 as stated fails: it takes the reduced mass to be 0 whenever the sum of the
  inverse masses is not positive. With the inverse masses -1 and 1/2, the default friction
  0.3 and a gravity of norm 2 the sum is -1/2, and the friction equations of the step
  get the bounds 3/10 and -3/10, not 0.
\<close>

theorem reduced_mass_of_negative_sum_counterexample:
  "contacts (before_contacts ext_one_point World_odd) = [contact23]
   \<and> gap (before_contacts ext_one_point World_odd) contact23 < 0
   \<and> collisionResponse (body_of (before_contacts ext_one_point World_odd) (bi contact23))
   \<and> collisionResponse (body_of (before_contacts ext_one_point World_odd) (bj contact23))
   \<and> 0 < friction (resolve_material (before_contacts ext_one_point World_odd) contact23)
   \<and> \<not> 0 < invMass (body_of (before_contacts ext_one_point World_odd) (bi contact23))
           + invMass (body_of (before_contacts ext_one_point World_odd) (bj contact23))
   \<and> (\<exists>f1 f2. frictionEquations (step ext_one_point None World_odd) = [f1, f2]
         \<and> minForce f1 = 3 / 10 \<and> maxForce f1 = - (3 / 10)
         \<and> minForce f1 \<noteq> - (friction (resolve_material (before_contacts ext_one_point World_odd) contact23)
                               * Vec3_norm (gravity World_odd) * 0))"
proof -
  let ?s = "before_contacts ext_one_point World_odd"
  have rm: "reducedMass_of ?s contact23 = - (1 / 2)"
    by (simp add: reducedMass_of_alt World_odd_one_point World_pair_one_point(3,4))
  have pre: "gap ?s contact23 < 0" "collisionResponse (body_of ?s (bi contact23))"
      "collisionResponse (body_of ?s (bj contact23))" "0 < friction (resolve_material ?s contact23)"
    by (simp_all add: World_odd_one_point World_pair_one_point(3,4))
  from step_one_contact [OF World_odd_one_point(1) pre, of None] obtain f1 f2 where
    f: "frictionEquations (step ext_one_point None World_odd) = [f1, f2]"
       "minForce f1 = 3 / 10" "maxForce f1 = - (3 / 10)"
    unfolding rm by (auto simp: World_odd_one_point)
  then have "\<exists>f1 f2. frictionEquations (step ext_one_point None World_odd) = [f1, f2]
         \<and> minForce f1 = 3 / 10 \<and> maxForce f1 = - (3 / 10)
         \<and> minForce f1 \<noteq> - (friction (resolve_material ?s contact23) * Vec3_norm (gravity World_odd) * 0)"
    by auto
  then show ?thesis
    using pre by (simp add: World_odd_one_point World_pair_one_point(3,4))
qed

text \<open>
  Claim C3, amended form, at the overlapping pair: unit masses, gravity of norm 2, default
  friction 0.3. The solver gets the contact equation and two friction equations with the
  bounds -3/10 and 3/10.
\<close>

theorem step_friction_equations_witness:
  "contacts (before_contacts ext_one_point World_pair) = [contact23]
   \<and> gap (before_contacts ext_one_point World_pair) contact23 < 0
   \<and> collisionResponse (body_of (before_contacts ext_one_point World_pair) (bi contact23))
   \<and> collisionResponse (body_of (before_contacts ext_one_point World_pair) (bj contact23))
   \<and> 0 < friction (resolve_material (before_contacts ext_one_point World_pair) contact23)
   \<and> 0 \<le> invMass (body_of (before_contacts ext_one_point World_pair) (bi contact23))
   \<and> 0 \<le> invMass (body_of (before_contacts ext_one_point World_pair) (bj contact23))
   \<and> (\<exists>ce f1 f2.
         solver_equations (makeContactConstraints ext_one_point (Vec3_norm (gravity World_pair))
            (before_contacts ext_one_point World_pair)) = [ContactEq ce, FrictionEq f1, FrictionEq f2]
         \<and> frictionEquations (step ext_one_point None World_pair) = [f1, f2]
         \<and> minForce f1 = - (3 / 10) \<and> maxForce f1 = 3 / 10
         \<and> minForce f2 = - (3 / 10) \<and> maxForce f2 = 3 / 10)"
proof -
  let ?s = "before_contacts ext_one_point World_pair"
  let ?m = "makeContactConstraints ext_one_point (Vec3_norm (gravity World_pair)) ?s"
  note w = World_pair_one_point
  have pre: "gap ?s contact23 < 0" "collisionResponse (body_of ?s (bi contact23))"
      "collisionResponse (body_of ?s (bj contact23))" "0 < friction (resolve_material ?s contact23)"
    by (simp_all add: w)
  from step_friction_equations [OF refl refl refl refl refl refl, of ext_one_point None World_pair]
  obtain blocks where
    b: "length blocks = length (contacts ?s)"
       "solver_equations ?m = solver_equations ?s @ concat blocks"
       "frictionEquations (step ext_one_point None World_pair) = concat (map friction_part blocks)"
       "\<exists>ce f1 f2. blocks ! 0 = [ContactEq ce, FrictionEq f1, FrictionEq f2]
           \<and> minForce f1 = - (3 / 10) \<and> maxForce f1 = 3 / 10
           \<and> minForce f2 = - (3 / 10) \<and> maxForce f2 = 3 / 10"
    by (auto simp: w)
  from b(1) have one: "blocks = [blocks ! 0]" by (cases blocks) (simp_all add: w)
  from b(4) obtain ce f1 f2 where
    f: "blocks ! 0 = [ContactEq ce, FrictionEq f1, FrictionEq f2]"
       "minForce f1 = - (3 / 10)" "maxForce f1 = 3 / 10"
       "minForce f2 = - (3 / 10)" "maxForce f2 = 3 / 10" by blast
  have c: "concat blocks = blocks ! 0" "concat (map friction_part blocks) = friction_part (blocks ! 0)"
    by (subst one, simp)+
  have "solver_equations ?m = [ContactEq ce, FrictionEq f1, FrictionEq f2]"
    using b(2) unfolding c f(1) by (simp add: w)
  moreover have "frictionEquations (step ext_one_point None World_pair) = [f1, f2]"
    using b(3) unfolding c f(1) by simp
  ultimately have "\<exists>ce f1 f2. solver_equations ?m = [ContactEq ce, FrictionEq f1, FrictionEq f2]
         \<and> frictionEquations (step ext_one_point None World_pair) = [f1, f2]
         \<and> minForce f1 = - (3 / 10) \<and> maxForce f1 = 3 / 10
         \<and> minForce f2 = - (3 / 10) \<and> maxForce f2 = 3 / 10"
    using f(2-5) by blast
  with pre show ?thesis by (simp add: w)
qed

lemma World_ghost_one_point:
  "contacts (before_contacts ext_one_point World_ghost) = [contact23]"
  "solver_equations (before_contacts ext_one_point World_ghost) = []"
  "gap (before_contacts ext_one_point World_ghost) contact23 = - 1"
  "\<not> collisionResponse (body_of (before_contacts ext_one_point World_ghost) 3)"
  "\<not> cm_get (collisionMatrix World_ghost) 2 3"
  "gravity World_ghost = gravity World_pair"
  by (simp_all add: gap_def before_contacts_def addGravity_def for_bodies_def
      update_subsystems_def collisionMatrixTick_def generate_contacts_def pool_frictionEquations_def
      update_body_def gravity_body_def cm_get_def
      ext_one_point_def ext0_def World_ghost_def World_pair_def World0_def World_new_def Body_new_def
      contact23_def Vec3_new_def ArrayCollisionMatrix_new_def Let_def)

lemma pen_count_nth:
  assumes "k < length (contacts s)" "gap s (contacts s ! k) < 0"
  shows "0 < pen_count s (bi (contacts s ! k)) (bj (contacts s ! k))"
proof -
  have "contacts s ! k \<in> set (filter (\<lambda>c. gap s c < 0 \<and> bi c = bi (contacts s ! k)
      \<and> bj c = bj (contacts s ! k)) (contacts s))"
    using assms by simp
  then show ?thesis unfolding pen_count_def by (simp only: length_pos_if_in_set)
qed

text \<open>
  Claim C9. \<open>s\<close> is the state in which step enters the loop over the contacts, \<open>m\<close> the
  state in which it leaves the loop and goes on to the solver; \<open>c\<close> is a penetrating
  contact of the contact list with collision response switched off in one of its two
  bodies. The equations that the loop gives to the solver come in one block for each
  contact, and the friction equations of the world after the step are those of the
  blocks: the block of \<open>c\<close> is empty, as is the block of every contact that is not
  penetrating or not responding, and every other block starts with the contact equation
  of its own contact and holds friction equations behind it. After the step the pair is
  marked in the collision matrix. The matrix that a step leaves marks a pair exactly if
  the pair had a penetrating contact in that step, so the matrix of \<open>w\<close> is the record
  of the previous step; if it does not mark the pair, this step dispatches a collide
  event carrying the other body on each of the two bodies, and both bodies are awake
  when the loop is left.
\<close>

theorem step_contact_without_response:
  assumes "s = before_contacts ext w"
    and "m = makeContactConstraints ext (Vec3_norm (gravity w)) s"
    and "active = (\<lambda>c. gap s c < 0 \<and> collisionResponse (body_of s (bi c))
                        \<and> collisionResponse (body_of s (bj c)))"
    and "k < length (contacts s)"
    and "c = contacts s ! k"
    and "gap s c < 0"
    and "\<not> (collisionResponse (body_of s (bi c)) \<and> collisionResponse (body_of s (bj c)))"
  shows "step ext dt w = finish_step ext (resolve_dt w dt) (integrate ext (resolve_dt w dt)
                           (solve_phase ext (resolve_dt w dt) m))
     \<and> (\<exists>blocks. length blocks = length (contacts s)
          \<and> solver_equations m = solver_equations s @ concat blocks
          \<and> frictionEquations (step ext dt w) = concat (map friction_part blocks)
          \<and> blocks ! k = []
          \<and> (\<forall>j<length (contacts s).
                (active (contacts s ! j) \<longrightarrow>
                   (\<exists>ce fs. blocks ! j = ContactEq ce # map FrictionEq fs
                      \<and> bi ce = bi (contacts s ! j) \<and> bj ce = bj (contacts s ! j)))
              \<and> (\<not> active (contacts s ! j) \<longrightarrow> blocks ! j = [])))
     \<and> cm_get (collisionMatrix (step ext dt w)) (bi c) (bj c)
     \<and> (cm_get (collisionMatrix (step ext du u)) (bi c) (bj c) \<longleftrightarrow>
          0 < pen_count (before_contacts ext u) (bi c) (bj c)
            + pen_count (before_contacts ext u) (bj c) (bi c))
     \<and> (\<not> cm_get (collisionMatrix w) (bi c) (bj c) \<longrightarrow>
          0 < collide_count (bi c) (bj c) (new_events w (step ext dt w))
          \<and> 0 < collide_count (bj c) (bi c) (new_events w (step ext dt w))
          \<and> sleepState (body_of m (bi c)) = AWAKE
          \<and> sleepState (body_of m (bj c)) = AWAKE)"
proof (intro conjI)
  show "step ext dt w = finish_step ext (resolve_dt w dt) (integrate ext (resolve_dt w dt)
                           (solve_phase ext (resolve_dt w dt) m))"
    unfolding step_def assms(1,2) by (rule refl)
next
  from step_blocks [of ext w "Vec3_norm (gravity w)" "resolve_dt w dt"] obtain blocks where
    b: "length blocks = length (contacts s)"
       "solver_equations m = solver_equations s @ concat blocks"
       "frictionEquations (step ext dt w) = concat (map friction_part blocks)"
       "\<forall>j<length (contacts s). block_at (Vec3_norm (gravity w)) s j (blocks ! j)"
    unfolding step_def assms(1,2) by blast
  have all: "\<forall>j<length (contacts s).
                (active (contacts s ! j) \<longrightarrow>
                   (\<exists>ce fs. blocks ! j = ContactEq ce # map FrictionEq fs
                      \<and> bi ce = bi (contacts s ! j) \<and> bj ce = bj (contacts s ! j)))
              \<and> (\<not> active (contacts s ! j) \<longrightarrow> blocks ! j = [])"
  proof (intro allI impI conjI)
    fix j assume j: "j < length (contacts s)" and a: "active (contacts s ! j)"
    from j b(4) have blk: "block_at (Vec3_norm (gravity w)) s j (blocks ! j)" by simp
    show "\<exists>ce fs. blocks ! j = ContactEq ce # map FrictionEq fs
                      \<and> bi ce = bi (contacts s ! j) \<and> bj ce = bj (contacts s ! j)"
    proof (cases "0 < friction (resolve_material s (contacts s ! j))")
      case True
      with blk a obtain ce f1 f2 where
        "blocks ! j = [ContactEq ce, FrictionEq f1, FrictionEq f2]"
        "bi ce = bi (contacts s ! j)" "bj ce = bj (contacts s ! j)"
        unfolding block_at_def Let_def assms(3) by blast
      then have "blocks ! j = ContactEq ce # map FrictionEq [f1, f2]
          \<and> bi ce = bi (contacts s ! j) \<and> bj ce = bj (contacts s ! j)" by simp
      then show ?thesis by blast
    next
      case False
      then have "friction (resolve_material s (contacts s ! j)) \<le> 0" by simp
      with blk a obtain ce where
        "blocks ! j = [ContactEq ce]"
        "bi ce = bi (contacts s ! j)" "bj ce = bj (contacts s ! j)"
        unfolding block_at_def Let_def assms(3) by blast
      then have "blocks ! j = ContactEq ce # map FrictionEq []
          \<and> bi ce = bi (contacts s ! j) \<and> bj ce = bj (contacts s ! j)" by simp
      then show ?thesis by blast
    qed
  next
    fix j assume j: "j < length (contacts s)" and a: "\<not> active (contacts s ! j)"
    from j b(4) have "block_at (Vec3_norm (gravity w)) s j (blocks ! j)" by simp
    with a show "blocks ! j = []" unfolding block_at_def Let_def assms(3) by blast
  qed
  have "\<not> active (contacts s ! k)" using assms(7) unfolding assms(3,5) by simp
  with all assms(4) have "blocks ! k = []" by blast
  with b(1,2,3) all show "\<exists>blocks. length blocks = length (contacts s)
          \<and> solver_equations m = solver_equations s @ concat blocks
          \<and> frictionEquations (step ext dt w) = concat (map friction_part blocks)
          \<and> blocks ! k = []
          \<and> (\<forall>j<length (contacts s).
                (active (contacts s ! j) \<longrightarrow>
                   (\<exists>ce fs. blocks ! j = ContactEq ce # map FrictionEq fs
                      \<and> bi ce = bi (contacts s ! j) \<and> bj ce = bj (contacts s ! j)))
              \<and> (\<not> active (contacts s ! j) \<longrightarrow> blocks ! j = []))"
    by blast
next
  have pos: "0 < pen_count s (bi c) (bj c)"
    using pen_count_nth [of k s] assms(4,6) unfolding assms(5) by simp
  then have pen: "0 < pen_count (before_contacts ext w) (bi c) (bj c)
      + pen_count (before_contacts ext w) (bj c) (bi c)"
    unfolding assms(1) by simp
  then have pen': "0 < pen_count (before_contacts ext w) (bj c) (bi c)
      + pen_count (before_contacts ext w) (bi c) (bj c)"
    by arith
  show "cm_get (collisionMatrix (step ext dt w)) (bi c) (bj c)"
    using pen by (simp only: step_records)
  show "cm_get (collisionMatrix (step ext du u)) (bi c) (bj c) \<longleftrightarrow>
          0 < pen_count (before_contacts ext u) (bi c) (bj c)
            + pen_count (before_contacts ext u) (bj c) (bi c)"
    by (rule step_records)
  show "\<not> cm_get (collisionMatrix w) (bi c) (bj c) \<longrightarrow>
          0 < collide_count (bi c) (bj c) (new_events w (step ext dt w))
          \<and> 0 < collide_count (bj c) (bi c) (new_events w (step ext dt w))
          \<and> sleepState (body_of m (bi c)) = AWAKE
          \<and> sleepState (body_of m (bj c)) = AWAKE"
  proof (intro impI)
    assume n: "\<not> cm_get (collisionMatrix w) (bi c) (bj c)"
    have n': "\<not> cm_get (collisionMatrix w) (bj c) (bi c)"
      by (subst cm_get_sym) (rule n)
    have e1: "0 < collide_count (bi c) (bj c) (new_events w (step ext dt w))"
      unfolding step_collide_count using n pen by simp
    have e2: "0 < collide_count (bj c) (bi c) (new_events w (step ext dt w))"
      unfolding step_collide_count using n' pen' by simp
    note wk = step_wakes [OF n pen, of "Vec3_norm (gravity w)"]
    show "0 < collide_count (bi c) (bj c) (new_events w (step ext dt w))
          \<and> 0 < collide_count (bj c) (bi c) (new_events w (step ext dt w))
          \<and> sleepState (body_of m (bi c)) = AWAKE
          \<and> sleepState (body_of m (bj c)) = AWAKE"
      using e1 e2 wk unfolding assms(1,2) by simp
  qed
qed

text \<open>
  Claim C9 at the overlapping pair, with the response of body 3 switched off: nothing
  goes to the solver, the pair is marked, both bodies get a collide event and are awake.
\<close>

theorem step_contact_without_response_witness:
  "contacts (before_contacts ext_one_point World_ghost) = [contact23]
   \<and> gap (before_contacts ext_one_point World_ghost) contact23 < 0
   \<and> \<not> (collisionResponse (body_of (before_contacts ext_one_point World_ghost) (bi contact23))
         \<and> collisionResponse (body_of (before_contacts ext_one_point World_ghost) (bj contact23)))
   \<and> \<not> cm_get (collisionMatrix World_ghost) (bi contact23) (bj contact23)
   \<and> solver_equations (makeContactConstraints ext_one_point (Vec3_norm (gravity World_ghost))
        (before_contacts ext_one_point World_ghost)) = []
   \<and> frictionEquations (step ext_one_point None World_ghost) = []
   \<and> cm_get (collisionMatrix (step ext_one_point None World_ghost)) 2 3
   \<and> 0 < collide_count 2 3 (new_events World_ghost (step ext_one_point None World_ghost))
   \<and> 0 < collide_count 3 2 (new_events World_ghost (step ext_one_point None World_ghost))
   \<and> sleepState (body_of (makeContactConstraints ext_one_point (Vec3_norm (gravity World_ghost))
        (before_contacts ext_one_point World_ghost)) 2) = AWAKE
   \<and> sleepState (body_of (makeContactConstraints ext_one_point (Vec3_norm (gravity World_ghost))
        (before_contacts ext_one_point World_ghost)) 3) = AWAKE"
proof -
  let ?s = "before_contacts ext_one_point World_ghost"
  let ?m = "makeContactConstraints ext_one_point (Vec3_norm (gravity World_ghost)) ?s"
  note w = World_ghost_one_point World_pair_one_point(3,4)
  have pre: "0 < length (contacts ?s)" "contact23 = contacts ?s ! 0" "gap ?s contact23 < 0"
      "\<not> (collisionResponse (body_of ?s (bi contact23)) \<and> collisionResponse (body_of ?s (bj contact23)))"
      "\<not> cm_get (collisionMatrix World_ghost) (bi contact23) (bj contact23)"
    by (simp_all add: w)
  note t = step_contact_without_response [OF refl refl refl pre(1-4), where dt = None and du = None and u = World_ghost]
  from t obtain blocks where
    b: "length blocks = length (contacts ?s)"
       "solver_equations ?m = solver_equations ?s @ concat blocks"
       "frictionEquations (step ext_one_point None World_ghost) = concat (map friction_part blocks)"
       "blocks ! 0 = []"
    by blast
  from b(1) have one: "blocks = [blocks ! 0]" by (cases blocks) (simp_all add: w)
  have c: "concat blocks = blocks ! 0" "concat (map friction_part blocks) = friction_part (blocks ! 0)"
    by (subst one, simp)+
  have eq: "solver_equations ?m = []" "frictionEquations (step ext_one_point None World_ghost) = []"
    using b(2,3) unfolding c b(4) by (simp_all add: w)
  from t pre(5) have rest:
    "cm_get (collisionMatrix (step ext_one_point None World_ghost)) (bi contact23) (bj contact23)"
    "0 < collide_count (bi contact23) (bj contact23) (new_events World_ghost (step ext_one_point None World_ghost))"
    "0 < collide_count (bj contact23) (bi contact23) (new_events World_ghost (step ext_one_point None World_ghost))"
    "sleepState (body_of ?m (bi contact23)) = AWAKE"
    "sleepState (body_of ?m (bj contact23)) = AWAKE"
    by blast+
  from pre eq rest show ?thesis by (simp add: w)
qed

end
